theory Spec2Isabelle
  imports Main "HOL-Library.Sublist"
begin

section \<open>JavaScript values\<close>

text \<open>
  The connectors are TypeScript functions whose argument object is typed, but whose
  checks (\<^verbatim>\<open>!secret\<close>, \<^verbatim>\<open>stopOnError === undefined\<close>) are written for
  values that do not respect the declared type. The values are therefore modelled
  dynamically, as the code meets them at run time. Numbers are the integers and
  \<open>NaN\<close>; an object is its list of own properties in insertion order.
\<close>

datatype jsval =
    JUndefined
  | JNull
  | JBool bool
  | JNum int
  | JNaN
  | JStr string
  | JArr "jsval list"
  | JObj "(string \<times> jsval) list"

type_synonym jsobj = "(string \<times> jsval) list"

text \<open>Truthiness, as \<^verbatim>\<open>if (x)\<close> and \<^verbatim>\<open>!x\<close> read a value.\<close>

fun truthy :: "jsval \<Rightarrow> bool" where
  "truthy JUndefined = False"
| "truthy JNull = False"
| "truthy (JBool b) = b"
| "truthy (JNum n) = (n \<noteq> 0)"
| "truthy JNaN = False"
| "truthy (JStr s) = (s \<noteq> [])"
| "truthy (JArr xs) = True"
| "truthy (JObj kvs) = True"

definition falsy :: "jsval \<Rightarrow> bool" where
  "falsy v = (\<not> truthy v)"

text \<open>\<^verbatim>\<open>a || b\<close> and \<^verbatim>\<open>a && b\<close> on values.\<close>

definition js_or :: "jsval \<Rightarrow> jsval \<Rightarrow> jsval" where
  "js_or a b = (if truthy a then a else b)"

definition js_and :: "jsval \<Rightarrow> jsval \<Rightarrow> jsval" where
  "js_and a b = (if truthy a then b else a)"

text \<open>
  Reading a property. On \<^verbatim>\<open>undefined\<close> and \<^verbatim>\<open>null\<close> JavaScript throws a
  TypeError: \<open>nullish\<close> is the test, and every unguarded read of the source is
  preceded by it in the model. On any other value without that property the read gives
  \<^verbatim>\<open>undefined\<close>. \<open>member\<close> is total so that a guarded chain
  \<^verbatim>\<open>a && a.b && a.b.c\<close> can be written with \<open>js_and\<close>: the guard discards
  whatever \<open>member\<close> returns on a falsy value.
\<close>

definition nullish :: "jsval \<Rightarrow> bool" where
  "nullish v = (v = JUndefined \<or> v = JNull)"

definition field :: "jsobj \<Rightarrow> string \<Rightarrow> jsval" where
  "field kvs k = (case map_of kvs k of Some v \<Rightarrow> v | None \<Rightarrow> JUndefined)"

fun member :: "jsval \<Rightarrow> string \<Rightarrow> jsval" where
  "member (JObj kvs) k = field kvs k"
| "member v k = JUndefined"

text \<open>\<^verbatim>\<open>xs[0]\<close> on a value that is an array, and \<^verbatim>\<open>Array.isArray\<close>.\<close>

fun first_element :: "jsval \<Rightarrow> jsval" where
  "first_element (JArr (x # xs)) = x"
| "first_element v = JUndefined"

fun isArray :: "jsval \<Rightarrow> bool" where
  "isArray (JArr xs) = True"
| "isArray v = False"

text \<open>Conversion to a string, as a template literal and \<^verbatim>\<open>+\<close> on a string do it.\<close>

fun show_nat :: "nat \<Rightarrow> string" where
  "show_nat n =
     (if n < 10 then [char_of (48 + n)]
      else show_nat (n div 10) @ [char_of (48 + n mod 10)])"

fun join_comma :: "string list \<Rightarrow> string" where
  "join_comma [] = []"
| "join_comma [s] = s"
| "join_comma (s # t # ss) = s @ '','' @ join_comma (t # ss)"

fun to_str :: "jsval \<Rightarrow> string" where
  "to_str JUndefined = ''undefined''"
| "to_str JNull = ''null''"
| "to_str (JBool b) = (if b then ''true'' else ''false'')"
| "to_str (JNum n) = (if n < 0 then CHR ''-'' # show_nat (nat (- n)) else show_nat (nat n))"
| "to_str JNaN = ''NaN''"
| "to_str (JStr s) = s"
| "to_str (JArr xs) =
     join_comma (map (\<lambda>x. if x = JUndefined \<or> x = JNull then [] else to_str x) xs)"
| "to_str (JObj kvs) = ''[object Object]''"

text \<open>
  \<^verbatim>\<open>a + b\<close>: concatenation when either side is a string (arrays and objects turn
  into strings first), addition of numbers otherwise.
\<close>

fun to_number :: "jsval \<Rightarrow> jsval" where
  "to_number JNull = JNum 0"
| "to_number (JBool b) = JNum (if b then 1 else 0)"
| "to_number (JNum n) = JNum n"
| "to_number v = JNaN"

fun stringlike :: "jsval \<Rightarrow> bool" where
  "stringlike (JStr s) = True"
| "stringlike (JArr xs) = True"
| "stringlike (JObj kvs) = True"
| "stringlike v = False"

definition js_plus :: "jsval \<Rightarrow> jsval \<Rightarrow> jsval" where
  "js_plus a b =
     (if stringlike a \<or> stringlike b then JStr (to_str a @ to_str b)
      else (case (to_number a, to_number b) of
              (JNum x, JNum y) \<Rightarrow> JNum (x + y)
            | _ \<Rightarrow> JNaN))"

text \<open>\<^verbatim>\<open>s.toLowerCase()\<close> on the ASCII letters.\<close>

definition lower_char :: "char \<Rightarrow> char" where
  "lower_char c =
     (if 65 \<le> (of_char c :: nat) \<and> (of_char c :: nat) \<le> 90 then char_of (of_char c + (32 :: nat))
      else c)"

definition toLowerCase :: "string \<Rightarrow> string" where
  "toLowerCase s = map lower_char s"

section \<open>Effects and outcomes of one invocation\<close>

text \<open>
  What one call of a connector does to the outside, in the order it does it: calls of
  an HTTP client (the client function and its arguments), writes to the conversation
  (\<^verbatim>\<open>addToContext(key, value, mode)\<close>, an assignment to a slot of the full context
  map, an assignment to a slot of the input map), log lines, output to the user, and a
  promise rejected with nobody holding it (\<^verbatim>\<open>Promise.reject(...)\<close> as a statement).
\<close>

datatype event =
    HttpCall string "jsval list"
  | AddToContext jsval jsval jsval
  | SetContext jsval jsval
  | SetInput jsval jsval
  | Log "jsval list"
  | Output "jsval list"
  | DetachedRejection jsval

text \<open>
  The promise the connector returns: resolved (always with the flow input), rejected
  with a reason, or never settled. A \<^verbatim>\<open>throw\<close> in an \<^verbatim>\<open>async\<close> function
  rejects its promise with the thrown value.
\<close>

datatype outcome = Pending | Resolved | Rejected jsval

record invocation =
  settled :: outcome
  trace :: "event list"

definition start :: invocation where
  "start = \<lparr>settled = Pending, trace = []\<rparr>"

definition emit :: "event \<Rightarrow> invocation \<Rightarrow> invocation" where
  "emit e s = s\<lparr>trace := trace s @ [e]\<rparr>"

text \<open>\<^verbatim>\<open>resolve\<close> and \<^verbatim>\<open>reject\<close> settle a promise once; later calls do nothing.\<close>

definition resolve :: "invocation \<Rightarrow> invocation" where
  "resolve s = (if settled s = Pending then s\<lparr>settled := Resolved\<rparr> else s)"

definition reject :: "jsval \<Rightarrow> invocation \<Rightarrow> invocation" where
  "reject v s = (if settled s = Pending then s\<lparr>settled := Rejected v\<rparr> else s)"

text \<open>\<^verbatim>\<open>new Error(m)\<close>, and the TypeError of the engine with its message.\<close>

definition new_Error :: "string \<Rightarrow> jsval" where
  "new_Error m = JObj [(''message'', JStr m)]"

definition throw_Error :: "string \<Rightarrow> invocation \<Rightarrow> invocation" where
  "throw_Error m s = reject (new_Error m) s"

definition simple :: jsval where
  "simple = JStr ''simple''"

definition error_object :: "jsval \<Rightarrow> jsval" where
  "error_object m = JObj [(''error'', m)]"

text \<open>The events that write to the conversation, and the HTTP calls.\<close>

fun is_store_write :: "event \<Rightarrow> bool" where
  "is_store_write (AddToContext k v m) = True"
| "is_store_write (SetContext k v) = True"
| "is_store_write (SetInput k v) = True"
| "is_store_write e = False"

fun is_http :: "event \<Rightarrow> bool" where
  "is_http (HttpCall f xs) = True"
| "is_http e = False"

definition store_writes :: "event list \<Rightarrow> event list" where
  "store_writes t = filter is_store_write t"

definition http_calls :: "event list \<Rightarrow> event list" where
  "http_calls t = filter is_http t"

section \<open>The ticket pattern\<close>

text \<open>
  \<^verbatim>\<open>/[a-zA-Z]+-\d+/g\<close> as data: a pattern is a sequence of atoms, a literal
  character or one-or-more characters of a class, a class being a list of ranges.
  \<open>match_here\<close> is the backtracking matcher at one position: a repetition is greedy
  and gives a character back when the rest of the pattern fails.
\<close>

type_synonym char_class = "(char \<times> char) list"

datatype atom = Lit char | OneOrMore char_class

definition in_class :: "char_class \<Rightarrow> char \<Rightarrow> bool" where
  "in_class cls c =
     list_ex (\<lambda>(lo, hi). (of_char lo :: nat) \<le> of_char c \<and> (of_char c :: nat) \<le> of_char hi) cls"

fun match_here :: "atom list \<Rightarrow> string \<Rightarrow> string option" where
  "match_here [] s = Some []"
| "match_here (Lit c # ps) [] = None"
| "match_here (Lit c # ps) (x # xs) =
     (if x = c then map_option ((#) x) (match_here ps xs) else None)"
| "match_here (OneOrMore cls # ps) [] = None"
| "match_here (OneOrMore cls # ps) (x # xs) =
     (if in_class cls x then
        (case match_here (OneOrMore cls # ps) xs of
           Some r \<Rightarrow> Some (x # r)
         | None \<Rightarrow> map_option ((#) x) (match_here ps xs))
      else None)"

text \<open>
  All matches from left to right, as the \<^verbatim>\<open>g\<close> flag asks: after a match the scan
  goes on behind it (\<open>skip\<close> counts the characters of the last match still to pass;
  after an empty match the scan moves one character).
\<close>

fun match_all :: "atom list \<Rightarrow> nat \<Rightarrow> string \<Rightarrow> string list" where
  "match_all ps skip [] =
     (if skip = 0 then (case match_here ps [] of Some r \<Rightarrow> [r] | None \<Rightarrow> []) else [])"
| "match_all ps (Suc k) (x # xs) = match_all ps k xs"
| "match_all ps 0 (x # xs) =
     (case match_here ps (x # xs) of
        Some r \<Rightarrow> r # match_all ps (length r - 1) xs
      | None \<Rightarrow> match_all ps 0 xs)"

definition letters :: char_class where
  "letters = [(CHR ''a'', CHR ''z''), (CHR ''A'', CHR ''Z'')]"

definition digits :: char_class where
  "digits = [(CHR ''0'', CHR ''9'')]"

definition pattern :: "atom list" where
  "pattern = [OneOrMore letters, Lit CHR ''-'', OneOrMore digits]"

text \<open>
  \<^verbatim>\<open>text.match(pattern)\<close>: the array of all matches, or \<^verbatim>\<open>null\<close> when there is
  none. On a value that is not a string the call throws a TypeError (there is nothing to
  read on \<^verbatim>\<open>undefined\<close>, and no \<^verbatim>\<open>match\<close> function on the others); the text
  of the message is the engine's.
\<close>

definition string_match :: "jsval \<Rightarrow> atom list \<Rightarrow> string + jsval" where
  "string_match v ps =
     (case v of
        JStr s \<Rightarrow>
          (case match_all ps 0 s of
             [] \<Rightarrow> Inr JNull
           | r # rs \<Rightarrow> Inr (JArr (map JStr (r # rs))))
      | JUndefined \<Rightarrow> Inl ''Cannot read property 'match' of undefined''
      | JNull \<Rightarrow> Inl ''Cannot read property 'match' of null''
      | _ \<Rightarrow> Inl ''input.input.text.match is not a function'')"

section \<open>The outside world\<close>

text \<open>
  The HTTP clients, the Jira client and the built-in functions the connectors call are
  not part of the repository: they are parameters of the model. A client answers a call
  (its function name and arguments) with what the connector code then observes.

  \<^item> \<^verbatim>\<open>axios\<close> returns a promise: fulfilled with a response object, or rejected
    with an error whose \<^verbatim>\<open>message\<close> is a string.
  \<^item> \<^verbatim>\<open>https.request\<close> and \<^verbatim>\<open>https.get\<close> throw on options they refuse, or
    fail to get a response (the \<^verbatim>\<open>error\<close> event of the request, for which no
    connector registers a listener: the response callback is never called), or call the
    callback with a response object whose stream then ends with a body or emits
    \<^verbatim>\<open>error\<close>.
  \<^item> the Jira client calls its callback once, with \<^verbatim>\<open>(error, issue)\<close>.
  \<^item> \<^verbatim>\<open>request\<close> calls its callback once, with \<^verbatim>\<open>(err, res, body)\<close>.
\<close>

datatype axios_result = AxiosResponse jsobj | AxiosError string

datatype stream = Ends string | Fails string

datatype https_result = Throws string | NoResponse | Response jsval stream

record world =
  axios :: "string \<Rightarrow> jsval list \<Rightarrow> axios_result"
  https :: "string \<Rightarrow> jsval list \<Rightarrow> https_result"
  jira :: "string \<Rightarrow> jsval list \<Rightarrow> jsval \<times> jsval"
  request :: "jsval \<Rightarrow> jsval \<times> jsval \<times> jsval"
  json_parse :: "string \<Rightarrow> jsval option"
  json_stringify :: "jsval \<Rightarrow> string"
  encodeURIComponent :: "string \<Rightarrow> string"
  uuidv4 :: string

section \<open>Validation and the error policy\<close>

text \<open>
  Every connector starts with a column of \<^verbatim>\<open>if (condition) throw/reject\<close> lines.
  The model writes the column as a list of (condition, message) pairs in the order of
  the source, and \<open>first_failure\<close> is the message of the first line that fires.
\<close>

definition first_failure :: "(bool \<times> string) list \<Rightarrow> string option" where
  "first_failure checks = map_option snd (find fst checks)"

text \<open>
  The \<^verbatim>\<open>catch\<close> block of the table connectors and of \<open>extractTicket\<close>:
  \<^verbatim>\<open>if (stopOnError) throw new Error(error.message);
  else input.actions.addToContext(store, { error: error.message }, 'simple');\<close>
  followed by \<^verbatim>\<open>return input\<close>.
\<close>

definition on_error :: "jsval \<Rightarrow> jsval \<Rightarrow> string \<Rightarrow> invocation \<Rightarrow> invocation" where
  "on_error stopOnError store message s =
     (if truthy stopOnError then throw_Error message s
      else resolve (emit (AddToContext store (error_object (JStr message)) simple) s))"

text \<open>\<^verbatim>\<open>response.data.result\<close>, which throws when \<^verbatim>\<open>response.data\<close> is nullish.\<close>

definition read_result :: "jsobj \<Rightarrow> string + jsval" where
  "read_result response =
     (if nullish (field response ''data'')
      then Inl (''Cannot read property 'result' of '' @ to_str (field response ''data''))
      else Inr (member (field response ''data'') ''result''))"

section \<open>The Yext connector\<close>

text \<open>
  \<open>GetEntity\<close>. In the \<^verbatim>\<open>catch\<close> handler the branch for \<^verbatim>\<open>stopOnError\<close>
  false assigns \<^verbatim>\<open>{ "error": error.message }\<close> to the local \<^verbatim>\<open>result\<close> and
  resolves; the local is not read again, so the assignment leaves no event.
  \<^verbatim>\<open>args.entity.toLowerCase()\<close> throws in the promise executor when the entity is
  not a string, which rejects the promise.
\<close>

definition GetEntity :: "world \<Rightarrow> jsobj \<Rightarrow> invocation" where
  "GetEntity w args =
     (let secret = field args ''secret'' in
      case first_failure
             [(falsy secret \<or> falsy (member secret ''api_key''), ''Secret not defined or invalid.''),
              (falsy (field args ''entity''), ''No entity defined.''),
              (falsy (field args ''api_version''), ''No version defined.'')] of
        Some message \<Rightarrow> reject (JStr message) start
      | None \<Rightarrow>
          (case field args ''entity'' of
             JStr entity \<Rightarrow>
               (let s1 = emit (Output [JStr (toLowerCase entity), JNull]) start;
                    url = ''https://api.yext.com/v2/accounts/me/'' @ toLowerCase entity
                          @ ''?api_key='' @ to_str (member secret ''api_key'')
                          @ ''&v='' @ to_str (field args ''api_version'');
                    call = [JStr url, JObj [(''headers'', JObj [(''Allow'', JStr ''application/json'')])]];
                    s2 = emit (HttpCall ''axios.get'' call) s1
                in case axios w ''get'' call of
                     AxiosResponse response \<Rightarrow>
                       resolve (emit (SetContext (field args ''store'') (field response ''data'')) s2)
                   | AxiosError message \<Rightarrow>
                       (if truthy (field args ''stopOnError'') then reject (JStr message) s2
                        else resolve s2))
           | _ \<Rightarrow> reject (new_Error ''args.entity.toLowerCase is not a function'') start))"

section \<open>The ServiceNow connectors\<close>

definition json_headers :: jsval where
  "json_headers = JObj [(''Accept'', JStr ''application/json''),
                        (''Content-Type'', JStr ''application/json'')]"

definition basic_auth :: "jsval \<Rightarrow> jsval \<Rightarrow> jsval" where
  "basic_auth username password = JObj [(''username'', username), (''password'', password)]"

definition GETFromTable :: "world \<Rightarrow> jsobj \<Rightarrow> invocation" where
  "GETFromTable w args =
     (let secret = field args ''secret''; tableName = field args ''tableName'';
          store = field args ''store''; stopOnError = field args ''stopOnError'';
          limit = field args ''limit''; assigned_to = field args ''assigned_to'';
          caller_id = field args ''caller_id'';
          username = member secret ''username''; password = member secret ''password'';
          instance = member secret ''instance''
      in case first_failure
             [(falsy secret, ''Secret not defined.''),
              (falsy tableName, ''Table name not defined.''),
              (falsy store, ''Context store not defined.''),
              (stopOnError = JUndefined, ''Stop on error flag not defined.''),
              (falsy username, ''Secret is missing the 'username' field.''),
              (falsy password, ''Secret is missing the 'password' field.''),
              (falsy instance, ''Secret is missing the 'instance' field.'')] of
        Some message \<Rightarrow> throw_Error message start
      | None \<Rightarrow>
          (let params = [(''sysparm_limit'', limit),
                         (''caller_id'', caller_id),
                         (''sysparm_query'', JStr ''ORDERBYDESCnumber''),
                         (''sysparm_display_value'', JBool True)]
                        @ (if truthy assigned_to then [(''assigned_to'', assigned_to)] else []);
               options = JObj [(''headers'', JObj [(''Accept'', JStr ''application/json'')]),
                               (''auth'', basic_auth username password),
                               (''params'', JObj params)];
               call = [JStr (to_str instance @ ''/api/now/table/'' @ to_str tableName), options];
               s1 = emit (HttpCall ''axios.get'' call) start
           in case axios w ''get'' call of
                AxiosResponse response \<Rightarrow>
                  (case read_result response of
                     Inr result \<Rightarrow> resolve (emit (AddToContext store result simple) s1)
                   | Inl message \<Rightarrow> on_error stopOnError store message s1)
              | AxiosError message \<Rightarrow> on_error stopOnError store message s1))"

definition POSTToTable :: "world \<Rightarrow> jsobj \<Rightarrow> invocation" where
  "POSTToTable w args =
     (let secret = field args ''secret''; tableName = field args ''tableName'';
          data = field args ''data''; store = field args ''store'';
          stopOnError = field args ''stopOnError'';
          username = member secret ''username''; password = member secret ''password'';
          instance = member secret ''instance''
      in case first_failure
             [(falsy secret, ''Secret not defined.''),
              (falsy tableName, ''Table name not defined.''),
              (falsy data, ''Data to post not defined.''),
              (falsy store, ''Context store not defined.''),
              (stopOnError = JUndefined, ''Stop on error flag not defined.''),
              (falsy username, ''Secret is missing the 'username' field.''),
              (falsy password, ''Secret is missing the 'password' field.''),
              (falsy instance, ''Secret is missing the 'instance' field.'')] of
        Some message \<Rightarrow> throw_Error message start
      | None \<Rightarrow>
          (let call = [JStr (to_str instance @ ''/api/now/table/'' @ to_str tableName), data,
                       JObj [(''headers'', json_headers), (''auth'', basic_auth username password)]];
               s1 = emit (HttpCall ''axios.post'' call) start
           in case axios w ''post'' call of
                AxiosResponse response \<Rightarrow>
                  (case read_result response of
                     Inr result \<Rightarrow> resolve (emit (AddToContext store result simple) s1)
                   | Inl message \<Rightarrow> on_error stopOnError store message s1)
              | AxiosError message \<Rightarrow> on_error stopOnError store message s1))"

definition PatchRecordInTable :: "world \<Rightarrow> jsobj \<Rightarrow> invocation" where
  "PatchRecordInTable w args =
     (let secret = field args ''secret''; tableName = field args ''tableName'';
          data = field args ''data''; sysId = field args ''sysId'';
          store = field args ''store''; stopOnError = field args ''stopOnError'';
          username = member secret ''username''; password = member secret ''password'';
          instance = member secret ''instance''
      in case first_failure
             [(falsy secret, ''Secret not defined.''),
              (falsy tableName, ''Table name not defined.''),
              (falsy data, ''Data to post not defined.''),
              (falsy sysId, ''Sys Id not defined.''),
              (falsy store, ''Context store not defined.''),
              (stopOnError = JUndefined, ''Stop on error flag not defined.''),
              (falsy username, ''Secret is missing the 'username' field.''),
              (falsy password, ''Secret is missing the 'password' field.''),
              (falsy instance, ''Secret is missing the 'instance' field.'')] of
        Some message \<Rightarrow> throw_Error message start
      | None \<Rightarrow>
          (let call = [JStr (to_str instance @ ''/api/now/table/'' @ to_str tableName @ ''/''
                             @ to_str sysId),
                       data,
                       JObj [(''headers'', json_headers), (''auth'', basic_auth username password)]];
               s1 = emit (HttpCall ''axios.patch'' call) start
           in case axios w ''patch'' call of
                AxiosResponse response \<Rightarrow>
                  (case read_result response of
                     Inr result \<Rightarrow> resolve (emit (AddToContext store result simple) s1)
                   | Inl message \<Rightarrow> on_error stopOnError store message s1)
              | AxiosError message \<Rightarrow> on_error stopOnError store message s1))"

definition DeleteFromTable :: "world \<Rightarrow> jsobj \<Rightarrow> invocation" where
  "DeleteFromTable w args =
     (let secret = field args ''secret''; tableName = field args ''tableName'';
          sysId = field args ''sysId''; store = field args ''store'';
          stopOnError = field args ''stopOnError'';
          username = member secret ''username''; password = member secret ''password'';
          instance = member secret ''instance''
      in case first_failure
             [(falsy secret, ''Secret not defined.''),
              (falsy tableName, ''Table name not defined.''),
              (falsy sysId, ''Sys Id not defined.''),
              (falsy store, ''Context store not defined.''),
              (stopOnError = JUndefined, ''Stop on error flag not defined.''),
              (falsy username, ''Secret is missing the 'username' field.''),
              (falsy password, ''Secret is missing the 'password' field.''),
              (falsy instance, ''Secret is missing the 'instance' field.'')] of
        Some message \<Rightarrow> throw_Error message start
      | None \<Rightarrow>
          (let call = [JStr (to_str instance @ ''/api/now/table/'' @ to_str tableName @ ''/''
                             @ to_str sysId),
                       JObj [(''headers'', json_headers), (''auth'', basic_auth username password)]];
               s1 = emit (HttpCall ''axios.delete'' call) start
           in case axios w ''delete'' call of
                AxiosResponse response \<Rightarrow>
                  resolve (emit (AddToContext store
                                   (JStr (''succefully deleted entry with id: '' @ to_str sysId))
                                   simple) s1)
              | AxiosError message \<Rightarrow> on_error stopOnError store message s1))"

definition GETAttachments :: "world \<Rightarrow> jsobj \<Rightarrow> invocation" where
  "GETAttachments w args =
     (let secret = field args ''secret''; store = field args ''store'';
          stopOnError = field args ''stopOnError'';
          username = member secret ''username''; password = member secret ''password'';
          instance = member secret ''instance''
      in case first_failure
             [(falsy secret, ''Secret not defined.''),
              (falsy store, ''Context store not defined.''),
              (stopOnError = JUndefined, ''Stop on error flag not defined.''),
              (falsy username, ''Secret is missing the 'username' field.''),
              (falsy password, ''Secret is missing the 'password' field.''),
              (falsy instance, ''Secret is missing the 'instance' field.'')] of
        Some message \<Rightarrow> throw_Error message start
      | None \<Rightarrow>
          (let call = [JStr (to_str instance @ ''/api/now/attachment''),
                       JObj [(''headers'', json_headers),
                             (''auth'', basic_auth username password),
                             (''params'', JObj [(''sysparm_limit'', field args ''limit''),
                                                (''sysparm_query'', field args ''query'')])]];
               s1 = emit (HttpCall ''axios.get'' call) start
           in case axios w ''get'' call of
                AxiosResponse response \<Rightarrow>
                  (case read_result response of
                     Inr result \<Rightarrow> resolve (emit (AddToContext store result simple) s1)
                   | Inl message \<Rightarrow> on_error stopOnError store message s1)
              | AxiosError message \<Rightarrow> on_error stopOnError store message s1))"

definition GETAttachmentById :: "world \<Rightarrow> jsobj \<Rightarrow> invocation" where
  "GETAttachmentById w args =
     (let secret = field args ''secret''; sysId = field args ''sysId'';
          store = field args ''store''; stopOnError = field args ''stopOnError'';
          username = member secret ''username''; password = member secret ''password'';
          instance = member secret ''instance''
      in case first_failure
             [(falsy secret, ''Secret not defined.''),
              (falsy sysId, ''Sys Id not defined.''),
              (falsy store, ''Context store not defined.''),
              (stopOnError = JUndefined, ''Stop on error flag not defined.''),
              (falsy username, ''Secret is missing the 'username' field.''),
              (falsy password, ''Secret is missing the 'password' field.''),
              (falsy instance, ''Secret is missing the 'instance' field.'')] of
        Some message \<Rightarrow> throw_Error message start
      | None \<Rightarrow>
          (let call = [JStr (to_str instance @ ''/api/now/attachment/'' @ to_str sysId),
                       JObj [(''headers'', json_headers), (''auth'', basic_auth username password)]];
               s1 = emit (HttpCall ''axios.get'' call) start
           in case axios w ''get'' call of
                AxiosResponse response \<Rightarrow>
                  (case read_result response of
                     Inr result \<Rightarrow> resolve (emit (AddToContext store result simple) s1)
                   | Inl message \<Rightarrow> on_error stopOnError store message s1)
              | AxiosError message \<Rightarrow> on_error stopOnError store message s1))"

text \<open>
  \<open>POSTAttachment\<close> makes two calls: it fetches the file with \<^verbatim>\<open>http.get\<close>, waits
  for the response object and posts that object. When the fetch gets no response the
  awaited promise never resolves; when \<^verbatim>\<open>http.get\<close> throws, the executor's
  exception rejects the awaited promise and the \<^verbatim>\<open>catch\<close> block runs.
\<close>

definition POSTAttachment :: "world \<Rightarrow> jsobj \<Rightarrow> invocation" where
  "POSTAttachment w args =
     (let secret = field args ''secret''; tableName = field args ''tableName'';
          tableSysId = field args ''tableSysId''; fileName = field args ''fileName'';
          fileLocation = field args ''fileLocation''; store = field args ''store'';
          stopOnError = field args ''stopOnError'';
          username = member secret ''username''; password = member secret ''password'';
          instance = member secret ''instance''
      in case first_failure
             [(falsy secret, ''Secret not defined.''),
              (falsy tableName, ''Table name not defined.''),
              (falsy tableSysId, ''Table sys Id not defined.''),
              (falsy fileName, ''File name not defined.''),
              (falsy fileLocation, ''File location not defined.''),
              (falsy store, ''Context store not defined.''),
              (stopOnError = JUndefined, ''Stop on error flag not defined.''),
              (falsy username, ''Secret is missing the 'username' field.''),
              (falsy password, ''Secret is missing the 'password' field.''),
              (falsy instance, ''Secret is missing the 'instance' field.'')] of
        Some message \<Rightarrow> throw_Error message start
      | None \<Rightarrow>
          (let s1 = emit (HttpCall ''http.get'' [fileLocation]) start
           in case https w ''get'' [fileLocation] of
                Throws message \<Rightarrow> on_error stopOnError store message s1
              | NoResponse \<Rightarrow> s1
              | Response file body \<Rightarrow>
                  (let call = [JStr (to_str instance @ ''/api/now/attachment/file''), file,
                               JObj [(''headers'', JObj [(''Accept'', JStr ''application/json''),
                                                         (''Content-Type'', JStr ''multipart/form-data'')]),
                                     (''auth'', basic_auth username password),
                                     (''params'', JObj [(''table_name'', tableName),
                                                        (''table_sys_id'', tableSysId),
                                                        (''file_name'', fileName)])]];
                       s2 = emit (HttpCall ''axios.post'' call) s1
                   in case axios w ''post'' call of
                        AxiosResponse post \<Rightarrow>
                          (case read_result post of
                             Inr result \<Rightarrow> resolve (emit (AddToContext store result simple) s2)
                           | Inl message \<Rightarrow> on_error stopOnError store message s2)
                      | AxiosError message \<Rightarrow> on_error stopOnError store message s2)))"

definition DeleteAttachment :: "world \<Rightarrow> jsobj \<Rightarrow> invocation" where
  "DeleteAttachment w args =
     (let secret = field args ''secret''; sysId = field args ''sysId'';
          store = field args ''store''; stopOnError = field args ''stopOnError'';
          username = member secret ''username''; password = member secret ''password'';
          instance = member secret ''instance''
      in case first_failure
             [(falsy secret, ''Secret not defined.''),
              (falsy sysId, ''Sys Id not defined.''),
              (falsy store, ''Context store not defined.''),
              (stopOnError = JUndefined, ''Stop on error flag not defined.''),
              (falsy username, ''Secret is missing the 'username' field.''),
              (falsy password, ''Secret is missing the 'password' field.''),
              (falsy instance, ''Secret is missing the 'instance' field.'')] of
        Some message \<Rightarrow> throw_Error message start
      | None \<Rightarrow>
          (let call = [JStr (to_str instance @ ''/api/now/attachment/'' @ to_str sysId),
                       JObj [(''headers'', json_headers), (''auth'', basic_auth username password)]];
               s1 = emit (HttpCall ''axios.delete'' call) start
           in case axios w ''delete'' call of
                AxiosResponse response \<Rightarrow>
                  resolve (emit (AddToContext store
                                   (JStr (''succefully deleted attachment with id: '' @ to_str sysId))
                                   simple) s1)
              | AxiosError message \<Rightarrow> on_error stopOnError store message s1))"


section \<open>The Jira connectors\<close>

subsection \<open>extractTicket\<close>

text \<open>
  \<open>txt\<close> is \<^verbatim>\<open>input.input.text\<close>, \<open>args\<close> the argument object. The
  \<^verbatim>\<open>catch\<close> of the source receives the TypeError of \<^verbatim>\<open>match\<close>.
\<close>

definition extractTicket :: "jsval \<Rightarrow> jsobj \<Rightarrow> invocation" where
  "extractTicket txt args =
     (let contextStore = field args ''contextStore'';
          stopOnError = field args ''stopOnError''
      in if falsy contextStore then throw_Error ''Context store not defined.'' start
         else if stopOnError = JUndefined then throw_Error ''Stop on error flag not defined.'' start
         else (case string_match txt pattern of
                 Inr m \<Rightarrow>
                   (if truthy m
                    then resolve (emit (AddToContext contextStore (first_element m) simple) start)
                    else resolve (emit (AddToContext contextStore (JStr ''No ticket found'') simple) start))
               | Inl message \<Rightarrow>
                   (if truthy stopOnError then throw_Error message start
                    else resolve (emit (AddToContext contextStore (error_object (JStr message)) simple) start))))"


subsection \<open>The Jira client\<close>

definition jira_config :: "jsval \<Rightarrow> jsval \<Rightarrow> jsval \<Rightarrow> jsval" where
  "jira_config domain username password =
     JObj [(''host'', domain), (''basic_auth'', basic_auth username password)]"

text \<open>
  \<^verbatim>\<open>Array.isArray(error.errorMessages) ? error.errorMessages[0] : error.errorMessage\<close>
\<close>

definition extract_message :: "jsval \<Rightarrow> jsval" where
  "extract_message error =
     (if isArray (member error ''errorMessages'') then first_element (member error ''errorMessages'')
      else member error ''errorMessage'')"

subsection \<open>createJiraTicket\<close>

text \<open>
  In the callback, the branch for an error with \<^verbatim>\<open>stopOnError\<close> false writes the
  error object and resolves, and has no \<^verbatim>\<open>return\<close>: control falls out of the
  \<^verbatim>\<open>if\<close> to the write of \<^verbatim>\<open>issue\<close> and the second \<^verbatim>\<open>resolve\<close>.
\<close>

definition createJiraTicket :: "world \<Rightarrow> jsobj \<Rightarrow> invocation" where
  "createJiraTicket w args =
     (let secret = field args ''secret''; summary = field args ''summary'';
          projectId = field args ''projectId''; epicname = field args ''epicname'';
          description = field args ''description''; assignee = field args ''assignee'';
          contextStore = field args ''contextStore''; stopOnError = field args ''stopOnError'';
          username = member secret ''username''; password = member secret ''password'';
          domain = member secret ''domain''
      in case first_failure
             [(falsy secret, ''Secret not defined.''),
              (falsy summary, ''Summary not defined.''),
              (falsy projectId, ''Project Id not defined.''),
              (falsy epicname, ''Epicname not defined.''),
              (falsy description, ''Description not defined.''),
              (falsy contextStore, ''Context store not defined.''),
              (stopOnError = JUndefined, ''Stop on error flag not defined.''),
              (falsy username, ''Secret is missing the 'username' field.''),
              (falsy password, ''Secret is missing the 'password' field.''),
              (falsy domain, ''Secret is missing the 'domain' field.'')] of
        Some message \<Rightarrow> throw_Error message start
      | None \<Rightarrow>
          (let call = [jira_config domain username password,
                       JObj [(''fields'',
                              JObj [(''summary'', summary),
                                    (''issuetype'', JObj [(''id'', JStr ''10000'')]),
                                    (''project'', JObj [(''key'', projectId)]),
                                    (''customfield_10011'', epicname),
                                    (''description'', description),
                                    (''assignee'', JObj [(''name'', js_or assignee (JStr ''admin''))])])]];
               s1 = emit (HttpCall ''jira.issue.createIssue'' call) start
           in case jira w ''createIssue'' call of
                (error, issue) \<Rightarrow>
                  (if truthy error then
                     (let errorMessage = extract_message error;
                          fullMessage = ''Error: '' @ to_str errorMessage
                                        @ ''. Please check your Cognigy Secret, too.''
                      in if truthy stopOnError then reject (JStr fullMessage) s1
                         else resolve (emit (AddToContext contextStore issue simple)
                                (resolve (emit (AddToContext contextStore (error_object errorMessage) simple) s1))))
                   else resolve (emit (AddToContext contextStore issue simple) s1))))"

subsection \<open>validateArgs and the single-field connectors\<close>

definition validateArgs :: "jsobj \<Rightarrow> string + jsobj" where
  "validateArgs args =
     (let secret = field args ''secret''; ticket = field args ''ticket'';
          contextStore = field args ''contextStore''; stopOnError = field args ''stopOnError'';
          username = member secret ''username''; password = member secret ''password'';
          domain = member secret ''domain''
      in case first_failure
             [(falsy secret, ''Secret not defined.''),
              (falsy ticket, ''No ticket defined. Please define a ticket like AB-1234.''),
              (falsy contextStore, ''Context store not defined.''),
              (stopOnError = JUndefined, ''Stop on error flag not defined.''),
              (falsy username, ''Secret is missing the 'username' field.''),
              (falsy password, ''Secret is missing the 'password' field.''),
              (falsy domain, ''Secret is missing the 'domain' field.'')] of
        Some message \<Rightarrow> Inl message
      | None \<Rightarrow>
          Inr [(''ticket'', ticket), (''contextStore'', contextStore), (''stopOnError'', stopOnError),
               (''username'', username), (''password'', password), (''domain'', domain)])"

text \<open>
  \<open>processJiraIssue\<close>. \<^verbatim>\<open>if (!issue) reject(...)\<close> has no \<^verbatim>\<open>return\<close>; the read
  of \<^verbatim>\<open>issue.key\<close> that follows throws on a nullish issue, and the \<^verbatim>\<open>catch\<close>
  rejects again, which a settled promise ignores.
\<close>

definition processJiraIssue ::
  "world \<Rightarrow> jsval \<Rightarrow> jsval \<Rightarrow> jsval \<Rightarrow> jsval \<Rightarrow> jsval \<Rightarrow> jsval \<Rightarrow> string \<Rightarrow> invocation" where
  "processJiraIssue w ticket contextStore stopOnError username password domain fieldName =
     (let call = [jira_config domain username password, JObj [(''issueKey'', ticket)]];
          s1 = emit (HttpCall ''jira.issue.getIssue'' call) start
      in case jira w ''getIssue'' call of
           (error, issue) \<Rightarrow>
             (if truthy (js_and error (member error ''errorMessages'')) then
                (let errorMessage = extract_message error
                 in if truthy stopOnError then reject errorMessage s1
                    else resolve (emit (AddToContext contextStore (error_object errorMessage) simple) s1))
              else if truthy error then
                reject (JStr ''Error while getting Jira issue.'')
                  (emit (Log [JStr ''error'', JStr ''JIRA API has changed'']) s1)
              else
                (let s2 = (if falsy issue
                           then reject (JStr ''Error while getting Jira issue. No issue was found'') s1
                           else s1)
                 in if nullish issue
                    then reject (new_Error (''Cannot read property 'key' of '' @ to_str issue)) s2
                    else resolve
                           (emit (AddToContext contextStore
                                    (JObj [(''ticket'', js_or (member issue ''key'') JNull),
                                           (''status'',
                                            js_or (js_and (member issue ''fields'')
                                                     (member (member issue ''fields'') fieldName))
                                              JNull)])
                                    simple) s2))))"

definition field_connector :: "string \<Rightarrow> world \<Rightarrow> jsobj \<Rightarrow> invocation" where
  "field_connector fieldName w args =
     (case validateArgs args of
        Inl message \<Rightarrow> throw_Error message start
      | Inr v \<Rightarrow>
          processJiraIssue w (field v ''ticket'') (field v ''contextStore'') (field v ''stopOnError'')
            (field v ''username'') (field v ''password'') (field v ''domain'') fieldName)"

definition getTicketStatus :: "world \<Rightarrow> jsobj \<Rightarrow> invocation" where
  "getTicketStatus = field_connector ''status''"

definition getTicketAssignee :: "world \<Rightarrow> jsobj \<Rightarrow> invocation" where
  "getTicketAssignee = field_connector ''assignee''"

definition getTicketPriority :: "world \<Rightarrow> jsobj \<Rightarrow> invocation" where
  "getTicketPriority = field_connector ''priority''"

definition getTicketResolution :: "world \<Rightarrow> jsobj \<Rightarrow> invocation" where
  "getTicketResolution = field_connector ''resolution''"

definition getTicketReporter :: "world \<Rightarrow> jsobj \<Rightarrow> invocation" where
  "getTicketReporter = field_connector ''reporter''"

definition getTicketComments :: "world \<Rightarrow> jsobj \<Rightarrow> invocation" where
  "getTicketComments = field_connector ''comment''"

definition getTicketWatchers :: "world \<Rightarrow> jsobj \<Rightarrow> invocation" where
  "getTicketWatchers = field_connector ''watches''"

subsection \<open>getTicketSummary\<close>

text \<open>
  \<^verbatim>\<open>issue.fields && issue.fields.a && issue.fields.a.b || null\<close>, and the test
  \<^verbatim>\<open>!issue || typeof issue !== "object" || Object.keys(issue).length === 0\<close>.
\<close>

definition summary_field :: "jsval \<Rightarrow> string \<Rightarrow> string \<Rightarrow> jsval" where
  "summary_field issue a b =
     js_or (js_and (js_and (member issue ''fields'') (member (member issue ''fields'') a))
              (member (member (member issue ''fields'') a) b))
       JNull"

definition no_issue :: "jsval \<Rightarrow> bool" where
  "no_issue issue =
     (falsy issue \<or> (case issue of JObj kvs \<Rightarrow> kvs = [] | JArr xs \<Rightarrow> xs = [] | _ \<Rightarrow> True))"

text \<open>
  The two \<^verbatim>\<open>Promise.reject(...)\<close> of this function are statements: the promise
  they create is dropped, and the function goes on to write \<^verbatim>\<open>result\<close> and to
  resolve. On a nullish issue the first assignment in the \<^verbatim>\<open>try\<close> throws, so
  \<^verbatim>\<open>result\<close> is still the empty object when it is written.
\<close>

definition getTicketSummary :: "world \<Rightarrow> jsobj \<Rightarrow> invocation" where
  "getTicketSummary w args =
     (case validateArgs args of
        Inl message \<Rightarrow> throw_Error message start
      | Inr v \<Rightarrow>
          (let contextStore = field v ''contextStore''; stopOnError = field v ''stopOnError'';
               call = [jira_config (field v ''domain'') (field v ''username'') (field v ''password''),
                       JObj [(''issueKey'', field v ''ticket'')]];
               s1 = emit (HttpCall ''jira.issue.getIssue'' call) start
           in case jira w ''getIssue'' call of
                (error, issue) \<Rightarrow>
                  (if truthy (js_and error (member error ''errorMessages'')) then
                     (let errorMessage = extract_message error
                      in if truthy stopOnError then reject errorMessage s1
                         else resolve (emit (AddToContext contextStore (error_object errorMessage) simple) s1))
                   else if truthy error then
                     reject (JStr ''Error while getting Jira issue.'')
                       (emit (Log [JStr ''error'', JStr ''JIRA API has changed'']) s1)
                   else
                     (let s2 = (if no_issue issue
                                then emit (DetachedRejection
                                             (JStr ''Error while getting Jira issue. No issue was found'')) s1
                                else s1)
                      in if nullish issue then
                           resolve
                             (emit (AddToContext contextStore (JObj []) simple)
                                (emit (DetachedRejection (JStr ''Error while getting ticket summary''))
                                   (emit (Log [JStr (''Error while getting ticket summary. Error was: ''
                                                     @ ''TypeError: Cannot read property 'key' of ''
                                                     @ to_str issue),
                                               JUndefined]) s2)))
                         else
                           resolve
                             (emit (AddToContext contextStore
                                      (JObj [(''ticket'', js_or (member issue ''key'') JNull),
                                             (''type'', summary_field issue ''issuetype'' ''name''),
                                             (''project'', summary_field issue ''project'' ''name''),
                                             (''status'', summary_field issue ''status'' ''name''),
                                             (''assignedTo'', summary_field issue ''assignee'' ''emailAddress''),
                                             (''reportedBy'', summary_field issue ''reporter'' ''emailAddress''),
                                             (''resolution'', summary_field issue ''resolution'' ''name''),
                                             (''comments'', summary_field issue ''comment'' ''comments'')])
                                      simple) s2)))))"

subsection \<open>getAllTicketInfo\<close>

definition getAllTicketInfo :: "world \<Rightarrow> jsobj \<Rightarrow> invocation" where
  "getAllTicketInfo w args =
     (case validateArgs args of
        Inl message \<Rightarrow> throw_Error message start
      | Inr v \<Rightarrow>
          (let contextStore = field v ''contextStore''; stopOnError = field v ''stopOnError'';
               call = [jira_config (field v ''domain'') (field v ''username'') (field v ''password''),
                       JObj [(''issueKey'', field v ''ticket'')]];
               s1 = emit (HttpCall ''jira.issue.getIssue'' call) start
           in case jira w ''getIssue'' call of
                (error, issue) \<Rightarrow>
                  (if truthy (js_and error (member error ''errorMessages'')) then
                     (let errorMessage = extract_message error
                      in if truthy stopOnError then reject errorMessage s1
                         else resolve (emit (AddToContext contextStore (error_object errorMessage) simple) s1))
                   else if truthy error then
                     reject (JStr ''Error while getting Jira issue.'')
                       (emit (Log [JStr ''error'', JStr ''JIRA API has changed'']) s1)
                   else
                     (let s2 = (if falsy issue
                                then reject (JStr ''Error while getting Jira issue. No issue was found'') s1
                                else s1)
                      in resolve (emit (AddToContext contextStore issue simple) s2)))))"


section \<open>The Azure and Bing connectors\<close>

text \<open>\<^verbatim>\<open>x.length\<close> on a truthy value.\<close>

fun js_length :: "jsval \<Rightarrow> jsval" where
  "js_length (JStr s) = JNum (int (length s))"
| "js_length (JArr xs) = JNum (int (length xs))"
| "js_length (JObj kvs) = field kvs ''length''"
| "js_length v = JUndefined"

text \<open>
  \<^verbatim>\<open>if (args.writeToContext) input.context.getFullContext()[args.store] = result;
  else input.input[args.store] = result;\<close>
\<close>

definition store_result :: "jsobj \<Rightarrow> jsval \<Rightarrow> invocation \<Rightarrow> invocation" where
  "store_result args result s =
     (if truthy (field args ''writeToContext'') then emit (SetContext (field args ''store'') result) s
      else emit (SetInput (field args ''store'') result) s)"

text \<open>
  The response handler the four text connectors share word for word, applied to what
  \<^verbatim>\<open>https.request\<close> does. An exception of \<^verbatim>\<open>https.request\<close> is thrown in the
  promise executor and rejects the promise. Without a response the handler never runs.
  \<^verbatim>\<open>JSON.parse\<close> throws on a body that is not JSON, inside the \<^verbatim>\<open>end\<close>
  listener, where nothing catches it: the promise stays as it is.
\<close>

definition response_handler :: "world \<Rightarrow> jsobj \<Rightarrow> https_result \<Rightarrow> invocation \<Rightarrow> invocation" where
  "response_handler w args r s =
     (case r of
        Throws message \<Rightarrow> reject (new_Error message) s
      | NoResponse \<Rightarrow> s
      | Response res (Ends body) \<Rightarrow>
          (case json_parse w body of
             Some result \<Rightarrow> resolve (store_result args result s)
           | None \<Rightarrow> s)
      | Response res (Fails message) \<Rightarrow>
          (if truthy (field args ''stopOnError'') then reject (JStr message) s
           else resolve (store_result args (error_object (JStr message)) s)))"

definition spellCheck :: "world \<Rightarrow> jsobj \<Rightarrow> invocation" where
  "spellCheck w args =
     (let secret = field args ''secret''; txt = field args ''text'' in
      case first_failure
             [(falsy secret \<or> falsy (member secret ''key''), ''Secret not defined or invalid.''),
              (falsy txt, ''No text defined.'')] of
        Some message \<Rightarrow> reject (JStr message) start
      | None \<Rightarrow>
          (let query_string = ''?mkt='' @ to_str (field args ''language'') @ ''&mode=proof'';
               request_params =
                 JObj [(''method'', JStr ''POST''),
                       (''hostname'', JStr ''api.cognitive.microsoft.com''),
                       (''path'', JStr (''/bing/v7.0/spellcheck'' @ query_string)),
                       (''headers'',
                        JObj [(''Content-Type'', JStr ''application/x-www-form-urlencoded''),
                              (''Content-Length'', js_plus (js_length txt) (JNum 5)),
                              (''Ocp-Apim-Subscription-Key'', member secret ''key'')])];
               call = [request_params, js_plus (JStr ''text='') txt]
           in response_handler w args (https w ''request'' call)
                (emit (HttpCall ''https.request'' call) start)))"

definition text_documents :: "jsobj \<Rightarrow> bool \<Rightarrow> jsval" where
  "text_documents args with_language =
     JObj [(''documents'',
            JArr [JObj ([(''id'', JStr ''1'')]
                        @ (if with_language then [(''language'', field args ''language'')] else [])
                        @ [(''text'', field args ''text'')])])]"

definition text_analytics :: "string \<Rightarrow> bool \<Rightarrow> world \<Rightarrow> jsobj \<Rightarrow> invocation" where
  "text_analytics path with_language w args =
     (let secret = field args ''secret'' in
      case first_failure
             [(falsy secret \<or> falsy (member secret ''key''), ''Secret not defined or invalid.''),
              (falsy (field args ''text''), ''No text defined.'')] of
        Some message \<Rightarrow> reject (JStr message) start
      | None \<Rightarrow>
          (let body = json_stringify w (text_documents args with_language);
               request_params =
                 JObj [(''method'', JStr ''POST''),
                       (''hostname'', JStr ''westus.api.cognitive.microsoft.com''),
                       (''path'', JStr path),
                       (''headers'', JObj [(''Ocp-Apim-Subscription-Key'', member secret ''key'')])];
               call = [request_params, JStr body]
           in response_handler w args (https w ''request'' call)
                (emit (HttpCall ''https.request'' call) start)))"

definition recognizeLanguage :: "world \<Rightarrow> jsobj \<Rightarrow> invocation" where
  "recognizeLanguage = text_analytics ''/text/analytics/v2.0/languages'' False"

definition extractKeyphrases :: "world \<Rightarrow> jsobj \<Rightarrow> invocation" where
  "extractKeyphrases = text_analytics ''/text/analytics/v2.0/keyPhrases'' True"

definition namedEntityRecognition :: "world \<Rightarrow> jsobj \<Rightarrow> invocation" where
  "namedEntityRecognition = text_analytics ''/text/analytics/v2.1-preview/entities'' True"

definition bing_options :: "world \<Rightarrow> string \<Rightarrow> jsval \<Rightarrow> jsval \<Rightarrow> jsobj" where
  "bing_options w path q accessKey =
     [(''hostname'', JStr ''api.cognitive.microsoft.com''),
      (''path'', JStr (path @ encodeURIComponent w (to_str q))),
      (''headers'', JObj [(''Ocp-Apim-Subscription-Key'', accessKey)])]"

definition bingWebSearch :: "world \<Rightarrow> jsobj \<Rightarrow> invocation" where
  "bingWebSearch w args =
     (let secret = field args ''secret'' in
      case first_failure
             [(falsy secret \<or> falsy (member secret ''key''), ''Secret not defined or invalid.''),
              (falsy (field args ''query''), ''No query defined.'')] of
        Some message \<Rightarrow> reject (JStr message) start
      | None \<Rightarrow>
          (let call = [JObj (bing_options w ''/bing/v7.0/search?q='' (field args ''query'')
                               (member secret ''key''))];
               s1 = emit (HttpCall ''https.get'' call) start
           in case https w ''get'' call of
                Throws message \<Rightarrow> reject (new_Error message) s1
              | NoResponse \<Rightarrow> s1
              | Response res (Ends body) \<Rightarrow>
                  (case json_parse w body of
                     Some result \<Rightarrow> resolve (emit (SetInput (field args ''store'') result) s1)
                   | None \<Rightarrow> s1)
              | Response res (Fails message) \<Rightarrow>
                  (if truthy (field args ''stopOnError'') then reject (JStr message) s1
                   else resolve (emit (SetInput (field args ''store'') (error_object (JStr message))) s1))))"

text \<open>
  The news and the image search register \<^verbatim>\<open>data\<close> and \<^verbatim>\<open>end\<close> listeners only.
  An \<^verbatim>\<open>error\<close> event of the response finds no listener, and nothing settles the
  promise.
\<close>

definition bingNewsSearch :: "world \<Rightarrow> jsobj \<Rightarrow> invocation" where
  "bingNewsSearch w args =
     (let secret = field args ''secret'' in
      case first_failure
             [(falsy secret \<or> falsy (member secret ''key''), ''Secret not defined or invalid.''),
              (falsy (field args ''term''), ''No news term defined.'')] of
        Some message \<Rightarrow> reject (JStr message) start
      | None \<Rightarrow>
          (let call = [JObj (bing_options w ''/bing/v7.0/news/search?q='' (field args ''term'')
                               (member secret ''key''))];
               s1 = emit (HttpCall ''https.get'' call) start
           in case https w ''get'' call of
                Throws message \<Rightarrow> reject (new_Error message) s1
              | NoResponse \<Rightarrow> s1
              | Response res (Ends body) \<Rightarrow>
                  (case json_parse w body of
                     Some result \<Rightarrow> resolve (emit (SetInput (field args ''store'') result) s1)
                   | None \<Rightarrow> s1)
              | Response res (Fails message) \<Rightarrow> s1))"

definition bingImageSearch :: "world \<Rightarrow> jsobj \<Rightarrow> invocation" where
  "bingImageSearch w args =
     (let secret = field args ''secret'' in
      case first_failure
             [(falsy secret \<or> falsy (member secret ''key''), ''Secret not defined or invalid.''),
              (falsy (field args ''term''), ''No image term defined.'')] of
        Some message \<Rightarrow> reject (JStr message) start
      | None \<Rightarrow>
          (let call = [JObj ((''method'', JStr ''GET'')
                             # bing_options w ''/bing/v7.0/images/search?q='' (field args ''term'')
                                 (member secret ''key''))];
               s1 = emit (HttpCall ''https.request'' call) start
           in case https w ''request'' call of
                Throws message \<Rightarrow> reject (new_Error message) s1
              | NoResponse \<Rightarrow> s1
              | Response res (Ends body) \<Rightarrow>
                  (case json_parse w body of
                     Some result \<Rightarrow> resolve (emit (SetInput (field args ''store'') result) s1)
                   | None \<Rightarrow> s1)
              | Response res (Fails message) \<Rightarrow> s1))"

text \<open>
  \<open>textTranslator\<close>: the callback of \<^verbatim>\<open>request\<close> reads neither \<^verbatim>\<open>err\<close> nor
  \<^verbatim>\<open>res\<close>; it stores \<^verbatim>\<open>body\<close> and resolves.
\<close>

definition textTranslator :: "world \<Rightarrow> jsobj \<Rightarrow> invocation" where
  "textTranslator w args =
     (let secret = field args ''secret'' in
      case first_failure
             [(falsy secret \<or> falsy (member secret ''key''), ''Secret not defined or invalid.''),
              (falsy (field args ''text''), ''No text defined.'')] of
        Some message \<Rightarrow> reject (JStr message) start
      | None \<Rightarrow>
          (let options =
                 JObj [(''method'', JStr ''POST''),
                       (''baseUrl'', JStr ''https://api.cognitive.microsofttranslator.com/''),
                       (''url'', JStr ''translate''),
                       (''qs'', JObj [(''api-version'', JStr ''3.0''), (''to'', field args ''language'')]),
                       (''headers'',
                        JObj [(''Ocp-Apim-Subscription-Key'', member secret ''key''),
                              (''Content-type'', JStr ''application/json''),
                              (''X-ClientTraceId'', JStr (uuidv4 w))]),
                       (''body'', JArr [JObj [(''text'', field args ''text'')]]),
                       (''json'', JBool True)];
               s1 = emit (HttpCall ''request'' [options]) start
           in case request w options of
                (err, res, body) \<Rightarrow> resolve (store_result args body s1)))"

section \<open>All connectors\<close>

datatype connector =
    CreateJiraTicket | ExtractTicket
  | GetTicketStatus | GetTicketAssignee | GetTicketPriority | GetTicketResolution
  | GetTicketReporter | GetTicketComments | GetTicketWatchers
  | GetTicketSummary | GetAllTicketInfo
  | YextGetEntity
  | GetFromTable | PostToTable | PatchRecord | DeleteRecord
  | GetAttachments | GetAttachmentById | PostAttachment | DeleteAttachmentById
  | SpellCheck | RecognizeLanguage | ExtractKeyphrases | NamedEntityRecognition
  | BingWebSearch | BingNewsSearch | BingImageSearch | TextTranslator

text \<open>
  One invocation: the connector, the world, \<^verbatim>\<open>input.input.text\<close> and the argument
  object.
\<close>

fun run :: "connector \<Rightarrow> world \<Rightarrow> jsval \<Rightarrow> jsobj \<Rightarrow> invocation" where
  "run CreateJiraTicket w txt args = createJiraTicket w args"
| "run ExtractTicket w txt args = extractTicket txt args"
| "run GetTicketStatus w txt args = getTicketStatus w args"
| "run GetTicketAssignee w txt args = getTicketAssignee w args"
| "run GetTicketPriority w txt args = getTicketPriority w args"
| "run GetTicketResolution w txt args = getTicketResolution w args"
| "run GetTicketReporter w txt args = getTicketReporter w args"
| "run GetTicketComments w txt args = getTicketComments w args"
| "run GetTicketWatchers w txt args = getTicketWatchers w args"
| "run GetTicketSummary w txt args = getTicketSummary w args"
| "run GetAllTicketInfo w txt args = getAllTicketInfo w args"
| "run YextGetEntity w txt args = GetEntity w args"
| "run GetFromTable w txt args = GETFromTable w args"
| "run PostToTable w txt args = POSTToTable w args"
| "run PatchRecord w txt args = PatchRecordInTable w args"
| "run DeleteRecord w txt args = DeleteFromTable w args"
| "run GetAttachments w txt args = GETAttachments w args"
| "run GetAttachmentById w txt args = GETAttachmentById w args"
| "run PostAttachment w txt args = POSTAttachment w args"
| "run DeleteAttachmentById w txt args = DeleteAttachment w args"
| "run SpellCheck w txt args = spellCheck w args"
| "run RecognizeLanguage w txt args = recognizeLanguage w args"
| "run ExtractKeyphrases w txt args = extractKeyphrases w args"
| "run NamedEntityRecognition w txt args = namedEntityRecognition w args"
| "run BingWebSearch w txt args = bingWebSearch w args"
| "run BingNewsSearch w txt args = bingNewsSearch w args"
| "run BingImageSearch w txt args = bingImageSearch w args"
| "run TextTranslator w txt args = textTranslator w args"


section \<open>Predicates of the specification\<close>

text \<open>
  The words of the specification about ticket tokens, as executable predicates on
  strings. A ticket-shaped token is a non-empty run of letters, a hyphen and a non-empty
  run of digits, and nothing else; the predicate takes the class of the letters, so that
  "uppercase-letter prefix" and "letter prefix" are two instances. The first ticket of a
  text is the token that starts leftmost and, from there, reaches as far as digits go.
\<close>

definition ascii_upper :: "char \<Rightarrow> bool" where
  "ascii_upper c = ((of_char CHR ''A'' :: nat) \<le> of_char c \<and> (of_char c :: nat) \<le> of_char CHR ''Z'')"

definition ascii_lower :: "char \<Rightarrow> bool" where
  "ascii_lower c = ((of_char CHR ''a'' :: nat) \<le> of_char c \<and> (of_char c :: nat) \<le> of_char CHR ''z'')"

definition ascii_letter :: "char \<Rightarrow> bool" where
  "ascii_letter c = (ascii_lower c \<or> ascii_upper c)"

definition ascii_digit :: "char \<Rightarrow> bool" where
  "ascii_digit c = ((of_char CHR ''0'' :: nat) \<le> of_char c \<and> (of_char c :: nat) \<le> of_char CHR ''9'')"

definition ticket_shape :: "(char \<Rightarrow> bool) \<Rightarrow> string \<Rightarrow> bool" where
  "ticket_shape letter t =
     (takeWhile letter t \<noteq> [] \<and>
      (case dropWhile letter t of
         [] \<Rightarrow> False
       | h # ds \<Rightarrow> h = CHR ''-'' \<and> ds \<noteq> [] \<and> list_all ascii_digit ds))"

definition ticket_starts :: "(char \<Rightarrow> bool) \<Rightarrow> string \<Rightarrow> bool" where
  "ticket_starts letter s = list_ex (ticket_shape letter) (prefixes s)"

definition has_ticket :: "(char \<Rightarrow> bool) \<Rightarrow> string \<Rightarrow> bool" where
  "has_ticket letter s = list_ex (ticket_shape letter) (sublists s)"

definition digit_follows :: "string \<Rightarrow> bool" where
  "digit_follows s = (case s of [] \<Rightarrow> False | c # cs \<Rightarrow> ascii_digit c)"

definition first_ticket :: "(char \<Rightarrow> bool) \<Rightarrow> string \<Rightarrow> string \<Rightarrow> bool" where
  "first_ticket letter s t =
     list_ex (\<lambda>i. prefix t (drop i s) \<and> ticket_shape letter t
                   \<and> \<not> digit_follows (drop (i + length t) s)
                   \<and> list_all (\<lambda>j. \<not> ticket_starts letter (drop j s)) [0..<i])
             [0..<Suc (length s)]"



subsection \<open>Validation\<close>

text \<open>
  The fields each connector requires, as the column of checks at its head lists them:
  the arguments that must be truthy, and the fields of the secret that must be truthy.
  The Jira and ServiceNow connectors also require \<^verbatim>\<open>stopOnError\<close> not to be
  \<^verbatim>\<open>undefined\<close>.
\<close>

fun required_args :: "connector \<Rightarrow> string list" where
  "required_args CreateJiraTicket =
     [''secret'', ''summary'', ''projectId'', ''epicname'', ''description'', ''contextStore'']"
| "required_args ExtractTicket = [''contextStore'']"
| "required_args YextGetEntity = [''secret'', ''entity'', ''api_version'']"
| "required_args GetFromTable = [''secret'', ''tableName'', ''store'']"
| "required_args PostToTable = [''secret'', ''tableName'', ''data'', ''store'']"
| "required_args PatchRecord = [''secret'', ''tableName'', ''data'', ''sysId'', ''store'']"
| "required_args DeleteRecord = [''secret'', ''tableName'', ''sysId'', ''store'']"
| "required_args GetAttachments = [''secret'', ''store'']"
| "required_args GetAttachmentById = [''secret'', ''sysId'', ''store'']"
| "required_args PostAttachment =
     [''secret'', ''tableName'', ''tableSysId'', ''fileName'', ''fileLocation'', ''store'']"
| "required_args DeleteAttachmentById = [''secret'', ''sysId'', ''store'']"
| "required_args SpellCheck = [''secret'', ''text'']"
| "required_args RecognizeLanguage = [''secret'', ''text'']"
| "required_args ExtractKeyphrases = [''secret'', ''text'']"
| "required_args NamedEntityRecognition = [''secret'', ''text'']"
| "required_args TextTranslator = [''secret'', ''text'']"
| "required_args BingWebSearch = [''secret'', ''query'']"
| "required_args BingNewsSearch = [''secret'', ''term'']"
| "required_args BingImageSearch = [''secret'', ''term'']"
| "required_args c = [''secret'', ''ticket'', ''contextStore'']"

datatype family = Jira | Yext | ServiceNow | Azure

fun family_of :: "connector \<Rightarrow> family" where
  "family_of YextGetEntity = Yext"
| "family_of GetFromTable = ServiceNow"
| "family_of PostToTable = ServiceNow"
| "family_of PatchRecord = ServiceNow"
| "family_of DeleteRecord = ServiceNow"
| "family_of GetAttachments = ServiceNow"
| "family_of GetAttachmentById = ServiceNow"
| "family_of PostAttachment = ServiceNow"
| "family_of DeleteAttachmentById = ServiceNow"
| "family_of SpellCheck = Azure"
| "family_of RecognizeLanguage = Azure"
| "family_of ExtractKeyphrases = Azure"
| "family_of NamedEntityRecognition = Azure"
| "family_of TextTranslator = Azure"
| "family_of BingWebSearch = Azure"
| "family_of BingNewsSearch = Azure"
| "family_of BingImageSearch = Azure"
| "family_of c = Jira"

definition required_secret :: "connector \<Rightarrow> string list" where
  "required_secret c =
     (if c = ExtractTicket then []
      else (case family_of c of
              Jira \<Rightarrow> [''username'', ''password'', ''domain'']
            | Yext \<Rightarrow> [''api_key'']
            | ServiceNow \<Rightarrow> [''username'', ''password'', ''instance'']
            | Azure \<Rightarrow> [''key'']))"

definition checks_stopOnError :: "connector \<Rightarrow> bool" where
  "checks_stopOnError c = (family_of c = Jira \<or> family_of c = ServiceNow)"

text \<open>
  \<open>is_missing c args f\<close>: the field \<open>f\<close> is one the connector requires, and the
  argument object does not provide it.
\<close>

definition is_missing :: "connector \<Rightarrow> jsobj \<Rightarrow> string \<Rightarrow> bool" where
  "is_missing c args f =
     ((f \<in> set (required_args c) \<and> falsy (field args f))
      \<or> (f \<in> set (required_secret c) \<and> falsy (member (field args ''secret'') f))
      \<or> (f = ''stopOnError'' \<and> checks_stopOnError c \<and> field args ''stopOnError'' = JUndefined))"

text \<open>
  A message names a field when the name of the field stands in it, letter case and
  spaces apart: \<^verbatim>\<open>"Table sys Id not defined."\<close> names \<^verbatim>\<open>tableSysId\<close>.
\<close>

definition normalise :: "string \<Rightarrow> string" where
  "normalise s = map lower_char (filter (\<lambda>c. c \<noteq> CHR '' '') s)"

definition mentions :: "string \<Rightarrow> string \<Rightarrow> bool" where
  "mentions message f = sublist (normalise f) (normalise message)"

text \<open>The message names one of the fields that are missing.\<close>

definition names_missing :: "connector \<Rightarrow> jsobj \<Rightarrow> string \<Rightarrow> bool" where
  "names_missing c args message =
     list_ex (\<lambda>f. is_missing c args f \<and> mentions message f)
       (required_args c @ required_secret c @ [''stopOnError''])"

text \<open>
  How the message of a failed validation reports what is missing. The Jira and ServiceNow
  connectors test each field on a line of its own, and the message names a missing field.
  The Yext, Azure and Bing connectors test the secret and its key on one line, with one
  message: when the key is missing the message is that one (and it names the secret, when
  the secret itself is missing); otherwise the message names a missing field, except that
  the Yext connector reports a missing \<^verbatim>\<open>api_version\<close> as
  \<^verbatim>\<open>"No version defined."\<close>.
\<close>

definition reports :: "connector \<Rightarrow> jsobj \<Rightarrow> string \<Rightarrow> bool" where
  "reports c args message =
     (if checks_stopOnError c then names_missing c args message
      else if list_ex (is_missing c args) (required_secret c)
      then message = ''Secret not defined or invalid.''
           \<and> (is_missing c args ''secret'' \<longrightarrow> names_missing c args message)
      else names_missing c args message
           \<or> (c = YextGetEntity \<and> message = ''No version defined.''
               \<and> is_missing c args ''api_version''))"

text \<open>No required field is missing; \<^verbatim>\<open>typeof v === "string"\<close>.\<close>

definition nothing_missing :: "connector \<Rightarrow> jsobj \<Rightarrow> bool" where
  "nothing_missing c args =
     list_all (\<lambda>f. \<not> is_missing c args f) (required_args c @ required_secret c @ [''stopOnError''])"

fun is_string :: "jsval \<Rightarrow> bool" where
  "is_string (JStr s) = True"
| "is_string v = False"

text \<open>
  How a failed validation surfaces: the Jira and ServiceNow connectors throw
  \<^verbatim>\<open>new Error(message)\<close>, the others return \<^verbatim>\<open>Promise.reject(message)\<close>.
\<close>

definition validation_error :: "connector \<Rightarrow> string \<Rightarrow> jsval" where
  "validation_error c message = (if checks_stopOnError c then new_Error message else JStr message)"

subsection \<open>Calls and writes\<close>



text \<open>A transport-level error: no response at all, or a response whose stream fails.\<close>

fun transport_error :: "https_result \<Rightarrow> bool" where
  "transport_error NoResponse = True"
| "transport_error (Response res (Fails message)) = True"
| "transport_error r = False"

subsection \<open>The summary projection\<close>

text \<open>
  The seven projected fields of \<open>getTicketSummary\<close> beside \<^verbatim>\<open>ticket\<close>: the name in
  the result, and the path under \<^verbatim>\<open>issue.fields\<close> it is read from.
\<close>

definition projected_fields :: "(string \<times> string \<times> string) list" where
  "projected_fields =
     [(''type'', ''issuetype'', ''name''),
      (''project'', ''project'', ''name''),
      (''status'', ''status'', ''name''),
      (''assignedTo'', ''assignee'', ''emailAddress''),
      (''reportedBy'', ''reporter'', ''emailAddress''),
      (''resolution'', ''resolution'', ''name''),
      (''comments'', ''comment'', ''comments'')]"

definition path_absent :: "jsval \<Rightarrow> string \<Rightarrow> string \<Rightarrow> bool" where
  "path_absent issue a b = (member (member (member issue ''fields'') a) b = JUndefined)"

subsection \<open>The table request\<close>

text \<open>
  The query parameters of a call of \<^verbatim>\<open>axios.get(url, options)\<close> are
  \<^verbatim>\<open>options.params\<close>; a parameter is on the request when the object has its key.
  \<open>table_args_valid\<close> says that the arguments pass the checks of \<open>GETFromTable\<close>.
\<close>

definition request_params :: "event \<Rightarrow> jsval" where
  "request_params e =
     (case e of HttpCall f [url, options] \<Rightarrow> member options ''params'' | _ \<Rightarrow> JUndefined)"

definition has_key :: "jsval \<Rightarrow> string \<Rightarrow> bool" where
  "has_key v k = (case v of JObj kvs \<Rightarrow> k \<in> set (map fst kvs) | _ \<Rightarrow> False)"

definition table_args_valid :: "jsobj \<Rightarrow> bool" where
  "table_args_valid args =
     (truthy (field args ''secret'') \<and> truthy (field args ''tableName'')
      \<and> truthy (field args ''store'') \<and> field args ''stopOnError'' \<noteq> JUndefined
      \<and> truthy (member (field args ''secret'') ''username'')
      \<and> truthy (member (field args ''secret'') ''password'')
      \<and> truthy (member (field args ''secret'') ''instance''))"

subsection \<open>A mock transport\<close>

text \<open>
  A world that answers every call of a client with one fixed reply, for the concrete
  invocations below.
\<close>

definition mock_world ::
  "axios_result \<Rightarrow> https_result \<Rightarrow> jsval \<times> jsval \<Rightarrow> jsval \<times> jsval \<times> jsval \<Rightarrow> world" where
  "mock_world a h j r =
     \<lparr>axios = (\<lambda>f xs. a), https = (\<lambda>f xs. h), jira = (\<lambda>f xs. j), request = (\<lambda>opts. r),
      json_parse = (\<lambda>body. None), json_stringify = (\<lambda>v. []),
      encodeURIComponent = (\<lambda>q. q), uuidv4 = ''00000000-0000-4000-8000-000000000000''\<rparr>"

definition offline :: world where
  "offline = mock_world (AxiosError ''Network Error'') NoResponse
               (JObj [(''errorMessages'', JArr [JStr ''Issue does not exist'']), (''errors'', JObj [])], JUndefined)
               (new_Error ''connect ETIMEDOUT'', JUndefined, JUndefined)"

text \<open>Argument objects and replies of the concrete invocations.\<close>

definition summary_args :: jsobj where
  "summary_args =
     [(''secret'', JObj [(''username'', JStr ''bot''), (''password'', JStr ''pw''),
                         (''domain'', JStr ''example.atlassian.net'')]),
      (''ticket'', JStr ''T-1''), (''contextStore'', JStr ''summary''),
      (''stopOnError'', JBool False)]"

definition mock_issue :: jsobj where
  "mock_issue =
     [(''key'', JStr ''T-1''),
      (''fields'', JObj [(''status'', JObj [(''name'', JStr ''Open'')]),
                         (''assignee'', JObj [(''emailAddress'', JStr ''a@b.com'')])])]"

definition table_args :: jsobj where
  "table_args =
     [(''secret'', JObj [(''username'', JStr ''bot''), (''password'', JStr ''pw''),
                         (''instance'', JStr ''https://dev.service-now.com'')]),
      (''tableName'', JStr ''incident''), (''limit'', JNum 5), (''caller_id'', JStr ''alice''),
      (''assigned_to'', JStr ''bob''), (''stopOnError'', JBool False), (''store'', JStr ''tickets'')]"

definition table_response :: jsobj where
  "table_response =
     [(''status'', JNum 200),
      (''data'', JObj [(''result'', JArr [JObj [(''number'', JStr ''INC0010001'')]])])]"

definition yext_args :: jsobj where
  "yext_args =
     [(''secret'', JObj [(''api_key'', JStr ''k'')]), (''entity'', JStr ''Locations''),
      (''api_version'', JStr ''20190424''), (''stopOnError'', JBool False), (''store'', JStr ''yext'')]"

definition translator_args :: jsobj where
  "translator_args =
     [(''secret'', JObj [(''key'', JStr ''k'')]), (''language'', JStr ''de''), (''text'', JStr ''hello''),
      (''writeToContext'', JBool True), (''store'', JStr ''translation''), (''stopOnError'', JBool True)]"

definition news_args :: jsobj where
  "news_args = [(''secret'', JObj [(''key'', JStr ''k'')]), (''term'', JStr ''isabelle''),
                (''store'', JStr ''news''), (''stopOnError'', JBool True)]"


definition online :: world where
  "online = (mock_world
      (AxiosResponse [(''status'', JNum 201), (''data'', JObj [(''result'', JObj [(''sys_id'', JStr ''a1'')])])])
      (Response (JObj [(''statusCode'', JNum 200)]) (Ends ''{}''))
      (JNull, JObj [(''key'', JStr ''T-1'')])
      (JNull, JObj [(''statusCode'', JNum 200)], JArr []))
     \<lparr>json_parse := (\<lambda>body. Some (JObj []))\<rparr>"

definition no_username_args :: "bool \<Rightarrow> jsobj" where
  "no_username_args stop =
     [(''secret'', JObj [(''username'', JStr []), (''password'', JStr ''pw''),
                         (''instance'', JStr ''https://dev.service-now.com'')]),
      (''tableName'', JStr ''incident''), (''stopOnError'', JBool stop), (''store'', JStr ''tickets'')]"

definition no_key_args :: jsobj where
  "no_key_args =
     [(''secret'', JObj [(''name'', JStr ''azure'')]), (''text'', JStr ''helo wrld''),
      (''language'', JStr ''en-US''), (''writeToContext'', JBool True), (''store'', JStr ''spelling''),
      (''stopOnError'', JBool False)]"

definition no_store_args :: jsobj where
  "no_store_args = [(''secret'', JObj [(''key'', JStr ''k'')]), (''text'', JStr ''helo wrld'')]"

definition no_flag_args :: jsobj where
  "no_flag_args =
     [(''secret'', JObj [(''username'', JStr ''bot''), (''password'', JStr ''pw''),
                         (''instance'', JStr ''https://dev.service-now.com'')]),
      (''tableName'', JStr ''incident''), (''store'', JStr ''tickets'')]"

definition yext_no_flag_args :: jsobj where
  "yext_no_flag_args =
     [(''secret'', JObj [(''api_key'', JStr ''k'')]), (''entity'', JStr ''Locations''),
      (''api_version'', JStr ''20190424''), (''store'', JStr ''yext'')]"

definition search_args :: jsobj where
  "search_args = [(''secret'', JObj [(''key'', JStr ''k'')]), (''query'', JStr ''isabelle''),
                  (''store'', JStr ''web'')]"

definition yext_no_version_args :: jsobj where
  "yext_no_version_args =
     [(''secret'', JObj [(''api_key'', JStr ''k'')]), (''entity'', JStr ''Locations''),
      (''stopOnError'', JBool False), (''store'', JStr ''yext'')]"

definition ticket_args :: jsobj where
  "ticket_args =
     [(''secret'', JObj [(''username'', JStr ''bot''), (''password'', JStr ''pw''),
                         (''domain'', JStr ''example.atlassian.net'')]),
      (''summary'', JStr ''Printer on fire''), (''projectId'', JStr ''OPS''),
      (''epicname'', JStr ''Hardware''), (''description'', JStr ''It burns.''),
      (''contextStore'', JStr ''ticket''), (''stopOnError'', JBool False)]"

section \<open>The ticket pattern matches ticket-shaped tokens\<close>

lemma in_letters: "in_class letters c = ascii_letter c"
  by (auto simp: in_class_def letters_def ascii_letter_def ascii_lower_def ascii_upper_def)

lemma in_digits: "in_class digits c = ascii_digit c"
  by (simp add: in_class_def digits_def ascii_digit_def)

lemma hyphen_not_letter: "\<not> ascii_letter CHR ''-''"
  by (simp add: ascii_letter_def ascii_lower_def ascii_upper_def)

lemma match_one_class:
  "match_here [OneOrMore cls] s =
     (if takeWhile (in_class cls) s = [] then None else Some (takeWhile (in_class cls) s))"
  by (induction s) auto

lemma match_class_lit:
  assumes "\<not> in_class cls c"
  shows "match_here (OneOrMore cls # Lit c # ps) s =
     (if takeWhile (in_class cls) s = [] then None
      else map_option ((@) (takeWhile (in_class cls) s))
             (match_here (Lit c # ps) (dropWhile (in_class cls) s)))"
proof (induction s)
  case Nil
  then show ?case by simp
next
  case (Cons x xs)
  show ?case
  proof (cases "in_class cls x")
    case False
    then show ?thesis by simp
  next
    case True
    show ?thesis
    proof (cases xs)
      case Nil
      with True show ?thesis by simp
    next
      case (Cons y ys)
      with True assms Cons.IH show ?thesis
        by (auto simp: option.map_comp comp_def split: option.splits)
    qed
  qed
qed

lemma match_here_pattern:
  "match_here pattern s =
     (if takeWhile ascii_letter s = [] then None
      else (case dropWhile ascii_letter s of
              [] \<Rightarrow> None
            | h # r \<Rightarrow>
                if h = CHR ''-'' \<and> takeWhile ascii_digit r \<noteq> []
                then Some (takeWhile ascii_letter s @ CHR ''-'' # takeWhile ascii_digit r)
                else None))"
proof -
  have nl: "\<not> in_class letters CHR ''-''"
    by (simp add: in_letters hyphen_not_letter)
  have l: "in_class letters = ascii_letter" and d: "in_class digits = ascii_digit"
    by (auto simp: in_letters in_digits)
  have aux: "map_option ((@) ls) (match_here [Lit CHR ''-'', OneOrMore digits] r) =
     (case r of
        [] \<Rightarrow> None
      | h # r' \<Rightarrow>
          if h = CHR ''-'' \<and> takeWhile ascii_digit r' \<noteq> []
          then Some (ls @ CHR ''-'' # takeWhile ascii_digit r')
          else None)" for ls r
    by (cases r) (simp_all add: match_one_class d)
  show ?thesis
    unfolding pattern_def
    by (simp only: match_class_lit [OF nl] aux l)
qed

lemma ticket_shapeI:
  assumes "ls \<noteq> []" "list_all L ls" "\<not> L CHR ''-''" "ds \<noteq> []" "list_all ascii_digit ds"
  shows "ticket_shape L (ls @ CHR ''-'' # ds)"
proof -
  from assms(2) have all: "\<And>x. x \<in> set ls \<Longrightarrow> L x"
    by (simp add: list_all_iff)
  have "takeWhile L (ls @ CHR ''-'' # ds) = ls"
    using all assms(3) by (simp add: takeWhile_append2)
  moreover have "dropWhile L (ls @ CHR ''-'' # ds) = CHR ''-'' # ds"
    using all assms(3) by (simp add: dropWhile_append2)
  ultimately show ?thesis
    using assms by (simp add: ticket_shape_def)
qed

lemma ticket_shapeE:
  assumes "ticket_shape L t"
  obtains ls ds where "t = ls @ CHR ''-'' # ds" "ls \<noteq> []" "list_all L ls"
    "ds \<noteq> []" "list_all ascii_digit ds"
proof -
  from assms obtain ds where dw: "dropWhile L t = CHR ''-'' # ds"
    and ds: "ds \<noteq> []" "list_all ascii_digit ds" and ne: "takeWhile L t \<noteq> []"
    by (auto simp: ticket_shape_def split: list.splits)
  have "t = takeWhile L t @ CHR ''-'' # ds"
    using takeWhile_dropWhile_id [of L t] dw by simp
  moreover have "list_all L (takeWhile L t)"
    by (auto simp: list_all_iff dest: set_takeWhileD)
  ultimately show ?thesis
    using that ne ds by blast
qed

lemma takeWhile_not_follows:
  "\<not> digit_follows post \<Longrightarrow> takeWhile ascii_digit post = []"
  by (cases post) (simp_all add: digit_follows_def)

lemma not_follows_dropWhile: "\<not> digit_follows (dropWhile ascii_digit r)"
proof (cases "dropWhile ascii_digit r")
  case Nil
  show ?thesis unfolding digit_follows_def Nil by simp
next
  case (Cons c cs)
  then have "\<not> ascii_digit c"
    using hd_dropWhile [of ascii_digit r] by simp
  with Cons show ?thesis by (simp add: digit_follows_def)
qed

lemma match_here_shape:
  assumes "match_here pattern s = Some r"
  shows "ticket_shape ascii_letter r \<and> prefix r s \<and> \<not> digit_follows (drop (length r) s)"
proof -
  let ?ls = "takeWhile ascii_letter s"
  from assms have ne: "?ls \<noteq> []"
    by (auto simp: match_here_pattern split: if_splits)
  from assms ne obtain r' where dw: "dropWhile ascii_letter s = CHR ''-'' # r'"
    and nd: "takeWhile ascii_digit r' \<noteq> []"
    and r: "r = ?ls @ CHR ''-'' # takeWhile ascii_digit r'"
    by (auto simp: match_here_pattern split: if_splits list.splits)
  let ?ds = "takeWhile ascii_digit r'"
  have "s = ?ls @ dropWhile ascii_letter s"
    by simp
  also have "\<dots> = ?ls @ CHR ''-'' # (?ds @ dropWhile ascii_digit r')"
    unfolding dw by simp
  finally have s: "s = r @ dropWhile ascii_digit r'"
    unfolding r by simp
  have "list_all ascii_letter ?ls" "list_all ascii_digit ?ds"
    by (auto simp: list_all_iff dest: set_takeWhileD)
  then have "ticket_shape ascii_letter r"
    unfolding r using ne nd hyphen_not_letter by (intro ticket_shapeI)
  moreover have "prefix r s"
    using s by (metis prefixI)
  moreover have "drop (length r) s = dropWhile ascii_digit r'"
    using s by (metis append_eq_conv_conj)
  ultimately show ?thesis
    by (simp add: not_follows_dropWhile)
qed

lemma shape_match_some:
  assumes "ticket_shape ascii_letter t"
  shows "\<exists>r. match_here pattern (t @ post) = Some r"
proof -
  from assms obtain ls ds where t: "t = ls @ CHR ''-'' # ds" and ls: "ls \<noteq> []" "list_all ascii_letter ls"
    and ds: "ds \<noteq> []" "list_all ascii_digit ds"
    by (rule ticket_shapeE)
  from ls(2) have all: "\<And>x. x \<in> set ls \<Longrightarrow> ascii_letter x"
    by (simp add: list_all_iff)
  from ds(2) have alld: "\<And>x. x \<in> set ds \<Longrightarrow> ascii_digit x"
    by (simp add: list_all_iff)
  have tw: "takeWhile ascii_letter (t @ post) = ls"
    unfolding t using all hyphen_not_letter by (simp add: takeWhile_append2)
  have dw: "dropWhile ascii_letter (t @ post) = CHR ''-'' # ds @ post"
    unfolding t using all hyphen_not_letter by (simp add: dropWhile_append2)
  have td: "takeWhile ascii_digit (ds @ post) = ds @ takeWhile ascii_digit post"
    using alld by (simp add: takeWhile_append2)
  show ?thesis
    using ls(1) ds(1) by (simp add: match_here_pattern tw dw td)
qed

lemma shape_match:
  assumes "ticket_shape ascii_letter t" "\<not> digit_follows post"
  shows "match_here pattern (t @ post) = Some t"
proof -
  from assms obtain ls ds where t: "t = ls @ CHR ''-'' # ds" and ls: "ls \<noteq> []" "list_all ascii_letter ls"
    and ds: "ds \<noteq> []" "list_all ascii_digit ds"
    by (auto elim: ticket_shapeE)
  from ls(2) have all: "\<And>x. x \<in> set ls \<Longrightarrow> ascii_letter x"
    by (simp add: list_all_iff)
  from ds(2) have alld: "\<And>x. x \<in> set ds \<Longrightarrow> ascii_digit x"
    by (simp add: list_all_iff)
  have tw: "takeWhile ascii_letter (t @ post) = ls"
    unfolding t using all hyphen_not_letter by (simp add: takeWhile_append2)
  have dw: "dropWhile ascii_letter (t @ post) = CHR ''-'' # ds @ post"
    unfolding t using all hyphen_not_letter by (simp add: dropWhile_append2)
  have td: "takeWhile ascii_digit (ds @ post) = ds"
    using alld assms(2) by (simp add: takeWhile_append2 takeWhile_not_follows)
  have "match_here pattern (t @ post) = Some (ls @ CHR ''-'' # ds)"
    using ls(1) ds(1) by (simp add: match_here_pattern tw dw td)
  then show ?thesis
    unfolding t .
qed

lemma starts_iff_match: "ticket_starts ascii_letter s \<longleftrightarrow> match_here pattern s \<noteq> None"
proof
  assume "ticket_starts ascii_letter s"
  then obtain t where "prefix t s" "ticket_shape ascii_letter t"
    by (auto simp: ticket_starts_def list_ex_iff)
  then show "match_here pattern s \<noteq> None"
    using shape_match_some by (fastforce elim: prefixE)
next
  assume "match_here pattern s \<noteq> None"
  then obtain r where "match_here pattern s = Some r" by auto
  from match_here_shape [OF this] show "ticket_starts ascii_letter s"
    by (auto simp: ticket_starts_def list_ex_iff)
qed

lemma match_all_first:
  assumes "\<forall>i<length pre. match_here ps (drop i (pre @ s)) = None" "match_here ps s = Some r"
  shows "\<exists>rest. match_all ps 0 (pre @ s) = r # rest"
  using assms
proof (induction pre)
  case Nil
  then show ?case by (cases s) simp_all
next
  case (Cons p pre)
  from Cons.prems(1) have "match_here ps (p # pre @ s) = None"
    by (metis append_Cons drop0 length_greater_0_conv list.discI)
  moreover have "\<forall>i<length pre. match_here ps (drop i (pre @ s)) = None"
    using Cons.prems(1) by (metis Suc_less_eq append_Cons drop_Suc_Cons length_Cons)
  ultimately show ?case
    using Cons.IH Cons.prems(2) by simp
qed

lemma match_all_head:
  assumes "match_all ps 0 s = r # rs"
  shows "\<exists>i\<le>length s. match_here ps (drop i s) = Some r
           \<and> (\<forall>j<i. match_here ps (drop j s) = None)"
  using assms
proof (induction s)
  case Nil
  then show ?case by (auto split: option.splits)
next
  case (Cons x xs)
  show ?case
  proof (cases "match_here ps (x # xs)")
    case (Some r')
    with Cons.prems have "match_here ps (drop 0 (x # xs)) = Some r" by simp
    then show ?thesis by blast
  next
    case None
    with Cons.prems have "match_all ps 0 xs = r # rs" by simp
    from Cons.IH [OF this] obtain i where i: "i \<le> length xs" "match_here ps (drop i xs) = Some r"
      "\<forall>j<i. match_here ps (drop j xs) = None" by blast
    have "\<forall>j<Suc i. match_here ps (drop j (x # xs)) = None"
    proof (intro allI impI)
      fix j assume "j < Suc i"
      then show "match_here ps (drop j (x # xs)) = None"
        using None i(3) by (cases j) simp_all
    qed
    with i(1,2) show ?thesis
      by (intro exI [of _ "Suc i"]) simp
  qed
qed


lemma match_all_nil:
  "match_all ps 0 s = [] \<Longrightarrow> i \<le> length s \<Longrightarrow> match_here ps (drop i s) = None"
proof (induction s arbitrary: i)
  case Nil
  then show ?case by (auto split: option.splits)
next
  case (Cons x xs)
  from Cons.prems(1) have here: "match_here ps (x # xs) = None" and rest: "match_all ps 0 xs = []"
    by (auto split: option.splits)
  show ?case
  proof (cases i)
    case 0
    with here show ?thesis by simp
  next
    case (Suc k)
    with Cons.prems(2) Cons.IH [OF rest, of k] show ?thesis by simp
  qed
qed

lemma first_ticket_iff:
  "first_ticket L s t \<longleftrightarrow>
     (\<exists>i\<le>length s. prefix t (drop i s) \<and> ticket_shape L t
        \<and> \<not> digit_follows (drop (i + length t) s)
        \<and> (\<forall>j<i. \<not> ticket_starts L (drop j s)))"
  unfolding first_ticket_def list_ex_iff list_all_iff
  by (simp add: Bex_def Ball_def less_Suc_eq_le del: upt_Suc)

lemma first_ticket_match_all:
  assumes "first_ticket ascii_letter s t"
  shows "\<exists>rest. match_all pattern 0 s = t # rest"
proof -
  from assms obtain i where i: "i \<le> length s" and pre: "prefix t (drop i s)"
    and shape: "ticket_shape ascii_letter t"
    and nf: "\<not> digit_follows (drop (i + length t) s)"
    and before: "\<forall>j<i. \<not> ticket_starts ascii_letter (drop j s)"
    unfolding first_ticket_iff by blast
  from pre obtain q where q: "drop i s = t @ q"
    by (auto elim: prefixE)
  then have "drop (length t) (drop i s) = q"
    by simp
  then have "drop (i + length t) s = q"
    by (simp add: add.commute)
  with q have split: "drop i s = t @ drop (i + length t) s"
    by simp
  have here: "match_here pattern (drop i s) = Some t"
    using shape_match [OF shape nf] split by simp
  have len: "length (take i s) = i"
    using i by simp
  have "\<forall>j<length (take i s). match_here pattern (drop j (take i s @ drop i s)) = None"
    using before by (simp add: starts_iff_match len)
  from match_all_first [OF this here] show ?thesis
    by simp
qed

lemma match_all_first_ticket:
  assumes "match_all pattern 0 s = r # rs"
  shows "first_ticket ascii_letter s r"
proof -
  from match_all_head [OF assms] obtain i where i: "i \<le> length s"
    and here: "match_here pattern (drop i s) = Some r"
    and before: "\<forall>j<i. match_here pattern (drop j s) = None"
    by blast
  from match_here_shape [OF here] have "ticket_shape ascii_letter r" "prefix r (drop i s)"
    "\<not> digit_follows (drop (i + length r) s)"
    by (simp_all add: add.commute)
  moreover from before have "\<forall>j<i. \<not> ticket_starts ascii_letter (drop j s)"
    by (simp add: starts_iff_match)
  ultimately show ?thesis
    using i unfolding first_ticket_iff by blast
qed

lemma has_ticket_iff: "has_ticket ascii_letter s \<longleftrightarrow> match_all pattern 0 s \<noteq> []"
proof
  assume "has_ticket ascii_letter s"
  then obtain t where sub: "sublist t s" and shape: "ticket_shape ascii_letter t"
    by (auto simp: has_ticket_def list_ex_iff)
  from sub obtain p q where s: "s = p @ t @ q"
    by (auto simp: sublist_def)
  from shape_match_some [OF shape, of q] have "match_here pattern (drop (length p) s) \<noteq> None"
    unfolding s by simp
  moreover have "length p \<le> length s"
    unfolding s by simp
  ultimately show "match_all pattern 0 s \<noteq> []"
    using match_all_nil [of pattern s "length p"] by auto
next
  assume "match_all pattern 0 s \<noteq> []"
  then obtain r rs where "match_all pattern 0 s = r # rs"
    by (cases "match_all pattern 0 s") auto
  from match_all_head [OF this] obtain i where "match_here pattern (drop i s) = Some r"
    by blast
  from match_here_shape [OF this] have "ticket_shape ascii_letter r" "prefix r (drop i s)"
    by simp_all
  moreover from this(2) have "sublist r s"
    by (metis prefix_imp_sublist sublist_drop sublist_order.order_trans)
  ultimately show "has_ticket ascii_letter s"
    by (auto simp: has_ticket_def list_ex_iff)
qed

lemma extractTicket_valid:
  assumes "truthy (field args ''contextStore'')" "field args ''stopOnError'' \<noteq> JUndefined"
  shows "extractTicket (JStr s) args =
     \<lparr>settled = Resolved,
      trace = [AddToContext (field args ''contextStore'')
                 (case match_all pattern 0 s of [] \<Rightarrow> JStr ''No ticket found'' | r # rs \<Rightarrow> JStr r)
                 simple]\<rparr>"
  using assms
  by (simp add: extractTicket_def falsy_def string_match_def resolve_def emit_def start_def
      split: list.splits)

section \<open>The ticket extractor\<close>

text \<open>
  C6. With a context store and a defined \<^verbatim>\<open>stopOnError\<close>, \<open>extractTicket\<close> on a
  text whose first ticket-style match is \<open>t\<close> (for one, \<^verbatim>\<open>"ABC-123"\<close>) resolves
  after one write, of exactly the string \<open>t\<close>, to the context store; on a text that
  contains no letters-hyphen-digits token it resolves after one write of the string
  \<^verbatim>\<open>"No ticket found"\<close>.
\<close>

theorem extractTicket_first_match_or_sentinel:
  assumes "truthy (field args ''contextStore'')" "field args ''stopOnError'' \<noteq> JUndefined"
  shows "(first_ticket ascii_letter s t \<longrightarrow>
            extractTicket (JStr s) args =
              \<lparr>settled = Resolved,
               trace = [AddToContext (field args ''contextStore'') (JStr t) simple]\<rparr>)
       \<and> (\<not> has_ticket ascii_letter s \<longrightarrow>
            extractTicket (JStr s) args =
              \<lparr>settled = Resolved,
               trace = [AddToContext (field args ''contextStore'') (JStr ''No ticket found'') simple]\<rparr>)"
proof (intro conjI impI)
  assume "first_ticket ascii_letter s t"
  from first_ticket_match_all [OF this] obtain rest where "match_all pattern 0 s = t # rest"
    by blast
  then show "extractTicket (JStr s) args =
      \<lparr>settled = Resolved, trace = [AddToContext (field args ''contextStore'') (JStr t) simple]\<rparr>"
    by (simp add: extractTicket_valid [OF assms])
next
  assume "\<not> has_ticket ascii_letter s"
  then have "match_all pattern 0 s = []"
    by (simp add: has_ticket_iff)
  then show "extractTicket (JStr s) args =
      \<lparr>settled = Resolved,
       trace = [AddToContext (field args ''contextStore'') (JStr ''No ticket found'') simple]\<rparr>"
    by (simp add: extractTicket_valid [OF assms])
qed

theorem extractTicket_first_match_or_sentinel_witness:
  "first_ticket ascii_letter ''re ABC-123 now'' ''ABC-123''
   \<and> extractTicket (JStr ''re ABC-123 now'') [(''contextStore'', JStr ''ticket''), (''stopOnError'', JBool False)]
       = \<lparr>settled = Resolved, trace = [AddToContext (JStr ''ticket'') (JStr ''ABC-123'') simple]\<rparr>
   \<and> \<not> has_ticket ascii_letter ''no ticket''
   \<and> extractTicket (JStr ''no ticket'') [(''contextStore'', JStr ''ticket''), (''stopOnError'', JBool False)]
       = \<lparr>settled = Resolved, trace = [AddToContext (JStr ''ticket'') (JStr ''No ticket found'') simple]\<rparr>"
proof -
  let ?args = "[(''contextStore'', JStr ''ticket''), (''stopOnError'', JBool False)]"
  have v: "truthy (field ?args ''contextStore'')" "field ?args ''stopOnError'' \<noteq> JUndefined"
    by (simp_all add: field_def)
  have f: "first_ticket ascii_letter ''re ABC-123 now'' ''ABC-123''"
    by code_simp
  have n: "\<not> has_ticket ascii_letter ''no ticket''"
    by code_simp
  from extractTicket_first_match_or_sentinel [OF v, of "''re ABC-123 now''" "''ABC-123''"]
       extractTicket_first_match_or_sentinel [OF v, of "''no ticket''" "''x''"] f n
  show ?thesis
    by (simp add: field_def)
qed

text \<open>
  C7, as amended. The pattern is \<^verbatim>\<open>[a-zA-Z]+-\d+\<close>: the prefix is of ASCII letters
  of either case. For every text, \<open>extractTicket\<close> stores one string; that string is
  \<open>t\<close> if and only if \<open>t\<close> is the first token of the text made of letters (of either
  case), a hyphen and digits, or the text has no such token and \<open>t\<close> is the
  not-found sentinel.
\<close>

theorem extractTicket_stores_first_letter_ticket:
  assumes "truthy (field args ''contextStore'')" "field args ''stopOnError'' \<noteq> JUndefined"
  shows "(\<exists>t. extractTicket (JStr s) args =
              \<lparr>settled = Resolved,
               trace = [AddToContext (field args ''contextStore'') (JStr t) simple]\<rparr>)
       \<and> (extractTicket (JStr s) args =
              \<lparr>settled = Resolved,
               trace = [AddToContext (field args ''contextStore'') (JStr t) simple]\<rparr>
          \<longleftrightarrow> first_ticket ascii_letter s t
               \<or> (\<not> has_ticket ascii_letter s \<and> t = ''No ticket found''))"
proof (cases "match_all pattern 0 s")
  case Nil
  then have "\<not> has_ticket ascii_letter s"
    by (simp add: has_ticket_iff)
  moreover have "\<not> first_ticket ascii_letter s t"
    using first_ticket_match_all [of s t] Nil by auto
  ultimately show ?thesis
    using Nil by (auto simp: extractTicket_valid [OF assms])
next
  case (Cons r rs)
  then have "has_ticket ascii_letter s"
    by (simp add: has_ticket_iff)
  moreover have "first_ticket ascii_letter s t \<longleftrightarrow> t = r"
    using first_ticket_match_all [of s t] match_all_first_ticket [OF Cons] Cons by auto
  ultimately show ?thesis
    using Cons by (auto simp: extractTicket_valid [OF assms])
qed

theorem extractTicket_stores_first_letter_ticket_witness:
  "first_ticket ascii_letter ''see abc-123 and XY-9'' ''abc-123''
   \<and> extractTicket (JStr ''see abc-123 and XY-9'') [(''contextStore'', JStr ''ticket''), (''stopOnError'', JBool True)]
       = \<lparr>settled = Resolved, trace = [AddToContext (JStr ''ticket'') (JStr ''abc-123'') simple]\<rparr>"
proof -
  let ?args = "[(''contextStore'', JStr ''ticket''), (''stopOnError'', JBool True)]"
  have v: "truthy (field ?args ''contextStore'')" "field ?args ''stopOnError'' \<noteq> JUndefined"
    by (simp_all add: field_def)
  have f: "first_ticket ascii_letter ''see abc-123 and XY-9'' ''abc-123''"
    by code_simp
  from extractTicket_stores_first_letter_ticket [OF v, of "''see abc-123 and XY-9''" "''abc-123''"] f
  show ?thesis
    by (simp add: field_def)
qed

text \<open>
  The claim as stated, with an uppercase prefix, fails on \<^verbatim>\<open>"abc-123"\<close>: the text
  has no token with an uppercase prefix, and the token is stored all the same, not the
  sentinel.
\<close>

theorem extractTicket_lowercase_counterexample:
  "\<not> has_ticket ascii_upper ''abc-123''
   \<and> extractTicket (JStr ''abc-123'') [(''contextStore'', JStr ''ticket''), (''stopOnError'', JBool False)]
       = \<lparr>settled = Resolved, trace = [AddToContext (JStr ''ticket'') (JStr ''abc-123'') simple]\<rparr>
   \<and> extractTicket (JStr ''abc-123'') [(''contextStore'', JStr ''ticket''), (''stopOnError'', JBool False)]
       \<noteq> \<lparr>settled = Resolved, trace = [AddToContext (JStr ''ticket'') (JStr ''No ticket found'') simple]\<rparr>"
proof -
  have "\<not> has_ticket ascii_upper ''abc-123''"
    by code_simp
  moreover have "match_all pattern 0 ''abc-123'' = [''abc-123'']"
    by code_simp
  ultimately show ?thesis
    by (simp add: extractTicket_valid field_def)
qed

section \<open>Events and outcomes\<close>

lemma trace_start [simp]: "trace start = []" and settled_start [simp]: "settled start = Pending"
  by (simp_all add: start_def)

lemma trace_emit [simp]: "trace (emit e s) = trace s @ [e]"
  and settled_emit [simp]: "settled (emit e s) = settled s"
  by (simp_all add: emit_def)

lemma trace_resolve [simp]: "trace (resolve s) = trace s"
  and settled_resolve [simp]: "settled (resolve s) = (if settled s = Pending then Resolved else settled s)"
  by (simp_all add: resolve_def)

lemma trace_reject [simp]: "trace (reject v s) = trace s"
  and settled_reject [simp]: "settled (reject v s) = (if settled s = Pending then Rejected v else settled s)"
  by (simp_all add: reject_def)

lemma trace_throw_Error [simp]: "trace (throw_Error m s) = trace s"
  and settled_throw_Error [simp]:
    "settled (throw_Error m s) = (if settled s = Pending then Rejected (new_Error m) else settled s)"
  by (simp_all add: throw_Error_def)

lemma trace_on_error [simp]:
  "trace (on_error stopOnError store message s) =
     (if truthy stopOnError then trace s
      else trace s @ [AddToContext store (error_object (JStr message)) simple])"
  and settled_on_error [simp]:
  "settled (on_error stopOnError store message s) =
     (if settled s \<noteq> Pending then settled s
      else if truthy stopOnError then Rejected (new_Error message) else Resolved)"
  by (simp_all add: on_error_def)

lemma first_failure_Nil: "first_failure [] = None"
  by (simp add: first_failure_def)

lemma first_failure_Cons:
  "first_failure ((b, m) # cs) = (if b then Some m else first_failure cs)"
  by (simp add: first_failure_def)

lemma validateArgs_Inr:
  assumes "validateArgs args = Inr v"
  shows "v = [(''ticket'', field args ''ticket''), (''contextStore'', field args ''contextStore''),
              (''stopOnError'', field args ''stopOnError''),
              (''username'', member (field args ''secret'') ''username''),
              (''password'', member (field args ''secret'') ''password''),
              (''domain'', member (field args ''secret'') ''domain'')]"
    and "truthy (field args ''secret'')" "truthy (field args ''ticket'')"
    and "truthy (field args ''contextStore'')" "field args ''stopOnError'' \<noteq> JUndefined"
  using assms
  by (auto simp: validateArgs_def Let_def falsy_def first_failure_Nil first_failure_Cons
      split: if_splits)

lemma summary_field_absent: "path_absent issue a b \<Longrightarrow> summary_field issue a b = JNull"
  by (simp add: path_absent_def summary_field_def js_or_def js_and_def)

lemma summary_field_present:
  "truthy (member issue ''fields'') \<Longrightarrow> truthy (member (member issue ''fields'') a) \<Longrightarrow>
   truthy (member (member (member issue ''fields'') a) b) \<Longrightarrow>
   summary_field issue a b = member (member (member issue ''fields'') a) b"
  by (simp add: summary_field_def js_or_def js_and_def)

lemma member_defined: "member v k \<noteq> JUndefined \<Longrightarrow> truthy v"
  by (cases v) auto

lemma summary_field_value:
  assumes "member (member (member issue ''fields'') a) b = x" "truthy x"
  shows "summary_field issue a b = x"
proof -
  from assms have "member (member (member issue ''fields'') a) b \<noteq> JUndefined"
    by auto
  then have 1: "truthy (member (member issue ''fields'') a)"
    by (rule member_defined)
  then have "member (member issue ''fields'') a \<noteq> JUndefined"
    by auto
  then have "truthy (member issue ''fields'')"
    by (rule member_defined)
  with 1 assms show ?thesis
    by (simp add: summary_field_present)
qed

lemma projected_fields_cases:
  assumes "(name, a, b) \<in> set projected_fields"
  shows "(name = ''type'' \<and> a = ''issuetype'' \<and> b = ''name'')
      \<or> (name = ''project'' \<and> a = ''project'' \<and> b = ''name'')
      \<or> (name = ''status'' \<and>  a = ''status'' \<and> b = ''name'')
      \<or> (name = ''assignedTo'' \<and> a = ''assignee'' \<and> b = ''emailAddress'')
      \<or> (name = ''reportedBy'' \<and> a = ''reporter'' \<and> b = ''emailAddress'')
      \<or> (name = ''resolution'' \<and> a = ''resolution'' \<and> b = ''name'')
      \<or> (name = ''comments'' \<and> a = ''comment'' \<and> b = ''comments'')"
  using assms unfolding projected_fields_def by simp

section \<open>The issue summary\<close>

text \<open>
  C8. When the arguments pass validation and the Jira client answers without error with
  an issue whose \<^verbatim>\<open>key\<close> is \<^verbatim>\<open>"T-1"\<close>, whose \<^verbatim>\<open>fields.status.name\<close> is
  \<^verbatim>\<open>"Open"\<close> and whose \<^verbatim>\<open>fields.assignee.emailAddress\<close> is \<^verbatim>\<open>"a@b.com"\<close>,
  \<open>getTicketSummary\<close> resolves after one write to the context store, of an object
  with \<^verbatim>\<open>ticket = "T-1"\<close>, \<^verbatim>\<open>status = "Open"\<close>, \<^verbatim>\<open>assignedTo = "a@b.com"\<close>, in
  which each of the seven projected fields whose path is absent from the issue is
  \<^verbatim>\<open>null\<close>.
\<close>

theorem getTicketSummary_projection:
  assumes valid: "validateArgs args = Inr v"
    and reply: "\<And>call. jira w ''getIssue'' call = (error, JObj issue)"
    and ok: "falsy error"
    and ticket: "field issue ''key'' = JStr ''T-1''"
    and status: "member (member (field issue ''fields'') ''status'') ''name'' = JStr ''Open''"
    and assignee: "member (member (field issue ''fields'') ''assignee'') ''emailAddress'' = JStr ''a@b.com''"
  shows "\<exists>result.
           settled (getTicketSummary w args) = Resolved
         \<and> store_writes (trace (getTicketSummary w args))
             = [AddToContext (field args ''contextStore'') (JObj result) simple]
         \<and> field result ''ticket'' = JStr ''T-1''
         \<and> field result ''status'' = JStr ''Open''
         \<and> field result ''assignedTo'' = JStr ''a@b.com''
         \<and> (\<forall>(name, a, b) \<in> set projected_fields.
               path_absent (JObj issue) a b \<longrightarrow> field result name = JNull)"
proof -
  let ?issue = "JObj issue"
  let ?result = "[(''ticket'', js_or (member ?issue ''key'') JNull),
                  (''type'', summary_field ?issue ''issuetype'' ''name''),
                  (''project'', summary_field ?issue ''project'' ''name''),
                  (''status'', summary_field ?issue ''status'' ''name''),
                  (''assignedTo'', summary_field ?issue ''assignee'' ''emailAddress''),
                  (''reportedBy'', summary_field ?issue ''reporter'' ''emailAddress''),
                  (''resolution'', summary_field ?issue ''resolution'' ''name''),
                  (''comments'', summary_field ?issue ''comment'' ''comments'')]"
  have nonempty: "issue \<noteq> []"
    using ticket by (auto simp: field_def)
  have run: "getTicketSummary w args =
      \<lparr>settled = Resolved,
       trace = [HttpCall ''jira.issue.getIssue''
                  [jira_config (field v ''domain'') (field v ''username'') (field v ''password''),
                   JObj [(''issueKey'', field v ''ticket'')]],
                AddToContext (field v ''contextStore'') (JObj ?result) simple]\<rparr>"
    using ok nonempty
    by (simp add: getTicketSummary_def valid reply Let_def js_and_def falsy_def no_issue_def
        nullish_def resolve_def emit_def start_def)
  have store: "field v ''contextStore'' = field args ''contextStore''"
    by (simp add: validateArgs_Inr(1) [OF valid] field_def)
  have absent: "field ?result name = JNull"
    if "(name, a, b) \<in> set projected_fields" "path_absent ?issue a b" for name a b
    using projected_fields_cases [OF that(1)] summary_field_absent [OF that(2)]
    by (elim disjE conjE) (simp_all add: field_def)
  have "field ?result ''ticket'' = JStr ''T-1''"
    using ticket by (simp add: field_def js_or_def)
  moreover have "field ?result ''status'' = JStr ''Open''"
    using summary_field_value [of ?issue "''status''" "''name''" "JStr ''Open''"] status
    by (simp add: field_def)
  moreover have "field ?result ''assignedTo'' = JStr ''a@b.com''"
    using summary_field_value [of ?issue "''assignee''" "''emailAddress''" "JStr ''a@b.com''"] assignee
    by (simp add: field_def)
  moreover have "settled (getTicketSummary w args) = Resolved"
    by (simp add: run)
  moreover have "store_writes (trace (getTicketSummary w args))
      = [AddToContext (field args ''contextStore'') (JObj ?result) simple]"
    by (simp add: run store store_writes_def)
  ultimately show ?thesis
    using absent by (intro exI [of _ ?result]) blast
qed

theorem getTicketSummary_projection_witness:
  "\<exists>result.
     store_writes (trace (getTicketSummary
        (mock_world (AxiosError []) NoResponse (JNull, JObj mock_issue) (JNull, JNull, JNull))
        summary_args))
       = [AddToContext (JStr ''summary'') (JObj result) simple]
     \<and> field result ''ticket'' = JStr ''T-1''
     \<and> field result ''status'' = JStr ''Open''
     \<and> field result ''assignedTo'' = JStr ''a@b.com''
     \<and> field result ''type'' = JNull
     \<and> field result ''project'' = JNull
     \<and> field result ''reportedBy'' = JNull
     \<and> field result ''resolution'' = JNull
     \<and> field result ''comments'' = JNull"
proof -
  let ?w = "mock_world (AxiosError []) NoResponse (JNull, JObj mock_issue) (JNull, JNull, JNull)"
  have valid: "validateArgs summary_args =
      Inr [(''ticket'', JStr ''T-1''), (''contextStore'', JStr ''summary''), (''stopOnError'', JBool False),
           (''username'', JStr ''bot''), (''password'', JStr ''pw''), (''domain'', JStr ''example.atlassian.net'')]"
    by (simp add: validateArgs_def summary_args_def field_def falsy_def first_failure_Nil
        first_failure_Cons)
  have reply: "\<And>call. jira ?w ''getIssue'' call = (JNull, JObj mock_issue)"
    by (simp add: mock_world_def)
  have abs: "path_absent (JObj mock_issue) ''issuetype'' ''name''"
    "path_absent (JObj mock_issue) ''project'' ''name''"
    "path_absent (JObj mock_issue) ''reporter'' ''emailAddress''"
    "path_absent (JObj mock_issue) ''resolution'' ''name''"
    "path_absent (JObj mock_issue) ''comment'' ''comments''"
    by (simp_all add: path_absent_def mock_issue_def field_def)
  have given: "falsy JNull" "field mock_issue ''key'' = JStr ''T-1''"
    "member (member (field mock_issue ''fields'') ''status'') ''name'' = JStr ''Open''"
    "member (member (field mock_issue ''fields'') ''assignee'') ''emailAddress'' = JStr ''a@b.com''"
    by (simp_all add: falsy_def mock_issue_def field_def)
  from getTicketSummary_projection [OF valid reply given]
  obtain result where r: "store_writes (trace (getTicketSummary ?w summary_args))
             = [AddToContext (field summary_args ''contextStore'') (JObj result) simple]"
    "field result ''ticket'' = JStr ''T-1''" "field result ''status'' = JStr ''Open''"
    "field result ''assignedTo'' = JStr ''a@b.com''"
    and all: "\<forall>(name, a, b) \<in> set projected_fields. path_absent (JObj mock_issue) a b \<longrightarrow> field result name = JNull"
    by blast
  have store: "field summary_args ''contextStore'' = JStr ''summary''"
    by (simp add: summary_args_def field_def)
  have "field result ''type'' = JNull" "field result ''project'' = JNull"
    "field result ''reportedBy'' = JNull" "field result ''resolution'' = JNull"
    "field result ''comments'' = JNull"
    using all abs by (simp_all add: projected_fields_def)
  with r store show ?thesis
    by (intro exI [of _ result]) simp
qed


section \<open>The table list\<close>

text \<open>
  C9. When the arguments pass validation and \<^verbatim>\<open>axios.get\<close> is fulfilled with a
  response whose \<^verbatim>\<open>data.result\<close> is an array, \<open>GETFromTable\<close> makes one request,
  writes exactly that array to the store and resolves; the query parameters of the
  request have \<^verbatim>\<open>sysparm_limit\<close> (the \<^verbatim>\<open>limit\<close> argument) and \<^verbatim>\<open>caller_id\<close>,
  and \<^verbatim>\<open>assigned_to\<close> whenever that argument is provided (truthy).
\<close>

theorem GETFromTable_stores_rows_and_sends_params:
  assumes valid: "table_args_valid args"
    and reply: "\<And>call. axios w ''get'' call = AxiosResponse response"
    and rows: "member (field response ''data'') ''result'' = JArr rows"
  shows "\<exists>request.
           trace (GETFromTable w args) = [request, AddToContext (field args ''store'') (JArr rows) simple]
         \<and> settled (GETFromTable w args) = Resolved
         \<and> is_http request
         \<and> has_key (request_params request) ''sysparm_limit''
         \<and> member (request_params request) ''sysparm_limit'' = field args ''limit''
         \<and> has_key (request_params request) ''caller_id''
         \<and> member (request_params request) ''caller_id'' = field args ''caller_id''
         \<and> (truthy (field args ''assigned_to'') \<longrightarrow>
               has_key (request_params request) ''assigned_to''
             \<and> member (request_params request) ''assigned_to'' = field args ''assigned_to'')"
proof -
  have data: "\<not> nullish (field response ''data'')"
    using rows by (auto simp: nullish_def)
  show ?thesis
    using valid data rows
    by (simp add: GETFromTable_def table_args_valid_def Let_def falsy_def reply read_result_def
        request_params_def has_key_def field_def basic_auth_def first_failure_Nil first_failure_Cons)
qed

theorem GETFromTable_stores_rows_and_sends_params_witness:
  "\<exists>request.
      trace (GETFromTable (mock_world (AxiosResponse table_response) NoResponse (JNull, JNull) (JNull, JNull, JNull))
               table_args)
        = [request, AddToContext (JStr ''tickets'') (JArr [JObj [(''number'', JStr ''INC0010001'')]]) simple]
    \<and> member (request_params request) ''sysparm_limit'' = JNum 5
    \<and> member (request_params request) ''caller_id'' = JStr ''alice''
    \<and> member (request_params request) ''assigned_to'' = JStr ''bob''"
proof -
  let ?w = "mock_world (AxiosResponse table_response) NoResponse (JNull, JNull) (JNull, JNull, JNull)"
  have valid: "table_args_valid table_args"
    by (simp add: table_args_valid_def table_args_def field_def)
  have reply: "\<And>call. axios ?w ''get'' call = AxiosResponse table_response"
    by (simp add: mock_world_def)
  have rows: "member (field table_response ''data'') ''result'' = JArr [JObj [(''number'', JStr ''INC0010001'')]]"
    by (simp add: table_response_def field_def)
  have given: "truthy (field table_args ''assigned_to'')" "field table_args ''assigned_to'' = JStr ''bob''"
    "field table_args ''limit'' = JNum 5" "field table_args ''caller_id'' = JStr ''alice''"
    "field table_args ''store'' = JStr ''tickets''"
    by (simp_all add: table_args_def field_def)
  from GETFromTable_stores_rows_and_sends_params [OF valid reply rows] given
  show ?thesis
    by auto
qed


section \<open>Errors that are swallowed or ignored\<close>

text \<open>
  C1, at the input where the code departs from it. \<open>GetEntity\<close> with
  \<^verbatim>\<open>stopOnError = false\<close> and a failing \<^verbatim>\<open>axios.get\<close> makes its one call and
  resolves, and writes nothing: the error object it builds never reaches the store.
\<close>

theorem GetEntity_swallows_error_without_write:
  "settled (GetEntity offline yext_args) = Resolved
   \<and> store_writes (trace (GetEntity offline yext_args)) = []
   \<and> length (http_calls (trace (GetEntity offline yext_args))) = 1"
  by (simp add: GetEntity_def offline_def mock_world_def yext_args_def field_def falsy_def Let_def
      store_writes_def http_calls_def first_failure_Nil first_failure_Cons)

text \<open>
  C2, at the input where the code departs from it. \<open>textTranslator\<close> with
  \<^verbatim>\<open>stopOnError = true\<close> and a failing \<^verbatim>\<open>request\<close> does not abort: it writes the
  missing body, \<^verbatim>\<open>undefined\<close>, to the store and resolves.
\<close>

theorem textTranslator_ignores_stopOnError:
  "settled (textTranslator offline translator_args) = Resolved
   \<and> store_writes (trace (textTranslator offline translator_args))
       = [SetContext (JStr ''translation'') JUndefined]"
  by (simp add: textTranslator_def offline_def mock_world_def translator_args_def field_def falsy_def
      Let_def store_writes_def store_result_def first_failure_Nil first_failure_Cons)


lemma transport_error_cases:
  assumes "transport_error r"
  obtains "r = NoResponse" | res message where "r = Response res (Fails message)"
  using assms by (cases r rule: transport_error.cases) auto

lemma bingNewsSearch_transport_error:
  assumes "truthy (field args ''secret'')" "truthy (member (field args ''secret'') ''key'')"
    "truthy (field args ''term'')" "\<And>call. transport_error (https w ''get'' call)"
  shows "settled (bingNewsSearch w args) = Pending \<and> store_writes (trace (bingNewsSearch w args)) = []"
proof -
  let ?call = "[JObj (bing_options w ''/bing/v7.0/news/search?q='' (field args ''term'')
                        (member (field args ''secret'') ''key''))]"
  from assms(4) [of ?call] show ?thesis
    using assms(1-3)
    by (cases rule: transport_error_cases)
       (simp_all add: bingNewsSearch_def Let_def falsy_def store_writes_def first_failure_Nil
          first_failure_Cons)
qed

lemma bingImageSearch_transport_error:
  assumes "truthy (field args ''secret'')" "truthy (member (field args ''secret'') ''key'')"
    "truthy (field args ''term'')" "\<And>call. transport_error (https w ''request'' call)"
  shows "settled (bingImageSearch w args) = Pending \<and> store_writes (trace (bingImageSearch w args)) = []"
proof -
  let ?call = "[JObj ((''method'', JStr ''GET'')
                      # bing_options w ''/bing/v7.0/images/search?q='' (field args ''term'')
                          (member (field args ''secret'') ''key''))]"
  from assms(4) [of ?call] show ?thesis
    using assms(1-3)
    by (cases rule: transport_error_cases)
       (simp_all add: bingImageSearch_def Let_def falsy_def store_writes_def first_failure_Nil
          first_failure_Cons)
qed

section \<open>Bing news and image search\<close>

text \<open>
  C10. In \<open>bingNewsSearch\<close> and \<open>bingImageSearch\<close>, when the arguments pass
  validation and the transport fails (no response, or a response whose stream emits
  \<^verbatim>\<open>error\<close>), the promise is never settled and nothing is written; and the value of
  \<^verbatim>\<open>stopOnError\<close> has no influence on what either function does, whatever the
  world.
\<close>

theorem bing_news_image_no_error_branch:
  "(truthy (field args ''secret'') \<and> truthy (member (field args ''secret'') ''key'')
      \<and> truthy (field args ''term'') \<and> (\<forall>f call. transport_error (https w f call))
    \<longrightarrow> settled (bingNewsSearch w args) = Pending
        \<and> store_writes (trace (bingNewsSearch w args)) = []
        \<and> settled (bingImageSearch w args) = Pending
        \<and> store_writes (trace (bingImageSearch w args)) = [])
   \<and> (\<forall>v. bingNewsSearch w ((''stopOnError'', v) # args) = bingNewsSearch w args)
   \<and> (\<forall>v. bingImageSearch w ((''stopOnError'', v) # args) = bingImageSearch w args)"
proof (intro conjI impI allI)
  assume a: "truthy (field args ''secret'') \<and> truthy (member (field args ''secret'') ''key'')
      \<and> truthy (field args ''term'') \<and> (\<forall>f call. transport_error (https w f call))"
  then have n: "settled (bingNewsSearch w args) = Pending \<and> store_writes (trace (bingNewsSearch w args)) = []"
    by (intro bingNewsSearch_transport_error) simp_all
  from a have i: "settled (bingImageSearch w args) = Pending \<and> store_writes (trace (bingImageSearch w args)) = []"
    by (intro bingImageSearch_transport_error) simp_all
  from n show "settled (bingNewsSearch w args) = Pending" ..
  from n show "store_writes (trace (bingNewsSearch w args)) = []" ..
  from i show "settled (bingImageSearch w args) = Pending" ..
  from i show "store_writes (trace (bingImageSearch w args)) = []" ..
next
  fix v
  have f: "field ((''stopOnError'', v) # args) ''secret'' = field args ''secret''"
    "field ((''stopOnError'', v) # args) ''term'' = field args ''term''"
    "field ((''stopOnError'', v) # args) ''store'' = field args ''store''"
    by (simp_all add: field_def)
  show "bingNewsSearch w ((''stopOnError'', v) # args) = bingNewsSearch w args"
    unfolding bingNewsSearch_def f by (rule refl)
next
  fix v
  have f: "field ((''stopOnError'', v) # args) ''secret'' = field args ''secret''"
    "field ((''stopOnError'', v) # args) ''term'' = field args ''term''"
    "field ((''stopOnError'', v) # args) ''store'' = field args ''store''"
    by (simp_all add: field_def)
  show "bingImageSearch w ((''stopOnError'', v) # args) = bingImageSearch w args"
    unfolding bingImageSearch_def f by (rule refl)
qed

theorem bing_news_image_no_error_branch_witness:
  "settled (bingNewsSearch offline news_args) = Pending
   \<and> store_writes (trace (bingNewsSearch offline news_args)) = []
   \<and> settled (bingImageSearch offline news_args) = Pending
   \<and> store_writes (trace (bingImageSearch offline news_args)) = []
   \<and> bingNewsSearch offline ((''stopOnError'', JBool False) # news_args) = bingNewsSearch offline news_args"
proof -
  have "truthy (field news_args ''secret'') \<and> truthy (member (field news_args ''secret'') ''key'')
      \<and> truthy (field news_args ''term'') \<and> (\<forall>f call. transport_error (https offline f call))"
    by (simp add: news_args_def field_def offline_def mock_world_def)
  with bing_news_image_no_error_branch [of news_args offline] show ?thesis
    by blast
qed

section \<open>Calls and writes of every connector\<close>






































text \<open>
  \<open>createJiraTicket\<close> is left out of the bound on writes: on an error of the Jira client
  with \<^verbatim>\<open>stopOnError\<close> false it writes the error object and then, for want of a
  \<^verbatim>\<open>return\<close>, the issue as well.
\<close>

lemma createJiraTicket_writes_twice:
  "store_writes (trace (createJiraTicket offline ticket_args))
     = [AddToContext (JStr ''ticket'') (error_object (JStr ''Issue does not exist'')) simple,
        AddToContext (JStr ''ticket'') JUndefined simple]"
  by (simp add: createJiraTicket_def offline_def mock_world_def ticket_args_def field_def falsy_def
      Let_def store_writes_def first_failure_Nil first_failure_Cons extract_message_def)

section \<open>Validation of every connector\<close>

lemma mention_facts:
  "mentions ''Secret not defined.'' ''secret''"
  "mentions ''Summary not defined.'' ''summary''"
  "mentions ''Project Id not defined.'' ''projectId''"
  "mentions ''Epicname not defined.'' ''epicname''"
  "mentions ''Description not defined.'' ''description''"
  "mentions ''Context store not defined.'' ''contextStore''"
  "mentions ''Context store not defined.'' ''store''"
  "mentions ''Stop on error flag not defined.'' ''stopOnError''"
  "mentions ''Secret is missing the 'username' field.'' ''username''"
  "mentions ''Secret is missing the 'password' field.'' ''password''"
  "mentions ''Secret is missing the 'domain' field.'' ''domain''"
  "mentions ''Secret is missing the 'instance' field.'' ''instance''"
  "mentions ''No ticket defined. Please define a ticket like AB-1234.'' ''ticket''"
  "mentions ''Table name not defined.'' ''tableName''"
  "mentions ''Data to post not defined.'' ''data''"
  "mentions ''Sys Id not defined.'' ''sysId''"
  "mentions ''Table sys Id not defined.'' ''tableSysId''"
  "mentions ''File name not defined.'' ''fileName''"
  "mentions ''File location not defined.'' ''fileLocation''"
  by code_simp+

lemma named_arg:
  "falsy (field args f) \<Longrightarrow> f \<in> set (required_args c) \<Longrightarrow> mentions m f \<Longrightarrow> names_missing c args m"
  by (auto simp: names_missing_def is_missing_def list_ex_iff)

lemma named_secret:
  "falsy (member (field args ''secret'') f) \<Longrightarrow> f \<in> set (required_secret c) \<Longrightarrow> mentions m f
   \<Longrightarrow> names_missing c args m"
  by (auto simp: names_missing_def is_missing_def list_ex_iff)

lemma named_stop:
  "field args ''stopOnError'' = JUndefined \<Longrightarrow> checks_stopOnError c
   \<Longrightarrow> mentions m ''stopOnError'' \<Longrightarrow> names_missing c args m"
  by (auto simp: names_missing_def is_missing_def list_ex_iff)

lemma first_failure_fires:
  "(True, m0) \<in> set cs \<Longrightarrow> \<exists>m. first_failure cs = Some m \<and> (True, m) \<in> set cs"
proof (induction cs)
  case Nil
  then show ?case by simp
next
  case (Cons c cs)
  obtain b m where c: "c = (b, m)" by (cases c)
  show ?case
  proof (cases b)
    case True
    with c show ?thesis by (simp add: first_failure_Cons)
  next
    case False
    with c Cons.prems have "(True, m0) \<in> set cs" by auto
    from Cons.IH [OF this] False c show ?thesis
      by (auto simp: first_failure_Cons)
  qed
qed

lemma guarded_validation:
  assumes "\<forall>(b, m) \<in> set cs. b \<longrightarrow> P m" and "\<exists>(b, m) \<in> set cs. b"
  shows "\<exists>m. (case first_failure cs of Some message \<Rightarrow> A message | None \<Rightarrow> B) = A m \<and> P m"
proof -
  from assms(2) obtain m0 where "(True, m0) \<in> set cs"
    by auto
  from first_failure_fires [OF this] obtain m where "first_failure cs = Some m" "(True, m) \<in> set cs"
    by blast
  with assms(1) show ?thesis
    by (intro exI [of _ m]) auto
qed

lemma validation_GETFromTable:
  assumes "is_missing GetFromTable args f"
  shows "\<exists>m. GETFromTable w args = throw_Error m start \<and> names_missing GetFromTable args m"
  unfolding GETFromTable_def Let_def
  apply (rule guarded_validation)
   apply (simp, intro conjI impI;
          (erule named_arg named_secret named_stop;
           simp add: mention_facts required_secret_def checks_stopOnError_def))
  using assms apply (auto simp: is_missing_def required_secret_def checks_stopOnError_def)
  done

lemma validation_POSTToTable:
  assumes "is_missing PostToTable args f"
  shows "\<exists>m. POSTToTable w args = throw_Error m start \<and> names_missing PostToTable args m"
  unfolding POSTToTable_def Let_def
  apply (rule guarded_validation)
   apply (simp, intro conjI impI;
          (erule named_arg named_secret named_stop;
           simp add: mention_facts required_secret_def checks_stopOnError_def))
  using assms apply (auto simp: is_missing_def required_secret_def checks_stopOnError_def)
  done

lemma validation_PatchRecordInTable:
  assumes "is_missing PatchRecord args f"
  shows "\<exists>m. PatchRecordInTable w args = throw_Error m start \<and> names_missing PatchRecord args m"
  unfolding PatchRecordInTable_def Let_def
  apply (rule guarded_validation)
   apply (simp, intro conjI impI;
          (erule named_arg named_secret named_stop;
           simp add: mention_facts required_secret_def checks_stopOnError_def))
  using assms apply (auto simp: is_missing_def required_secret_def checks_stopOnError_def)
  done

lemma validation_DeleteFromTable:
  assumes "is_missing DeleteRecord args f"
  shows "\<exists>m. DeleteFromTable w args = throw_Error m start \<and> names_missing DeleteRecord args m"
  unfolding DeleteFromTable_def Let_def
  apply (rule guarded_validation)
   apply (simp, intro conjI impI;
          (erule named_arg named_secret named_stop;
           simp add: mention_facts required_secret_def checks_stopOnError_def))
  using assms apply (auto simp: is_missing_def required_secret_def checks_stopOnError_def)
  done

lemma validation_GETAttachments:
  assumes "is_missing GetAttachments args f"
  shows "\<exists>m. GETAttachments w args = throw_Error m start \<and> names_missing GetAttachments args m"
  unfolding GETAttachments_def Let_def
  apply (rule guarded_validation)
   apply (simp, intro conjI impI;
          (erule named_arg named_secret named_stop;
           simp add: mention_facts required_secret_def checks_stopOnError_def))
  using assms apply (auto simp: is_missing_def required_secret_def checks_stopOnError_def)
  done

lemma validation_GETAttachmentById:
  assumes "is_missing GetAttachmentById args f"
  shows "\<exists>m. GETAttachmentById w args = throw_Error m start \<and> names_missing GetAttachmentById args m"
  unfolding GETAttachmentById_def Let_def
  apply (rule guarded_validation)
   apply (simp, intro conjI impI;
          (erule named_arg named_secret named_stop;
           simp add: mention_facts required_secret_def checks_stopOnError_def))
  using assms apply (auto simp: is_missing_def required_secret_def checks_stopOnError_def)
  done

lemma validation_POSTAttachment:
  assumes "is_missing PostAttachment args f"
  shows "\<exists>m. POSTAttachment w args = throw_Error m start \<and> names_missing PostAttachment args m"
  unfolding POSTAttachment_def Let_def
  apply (rule guarded_validation)
   apply (simp, intro conjI impI;
          (erule named_arg named_secret named_stop;
           simp add: mention_facts required_secret_def checks_stopOnError_def))
  using assms apply (auto simp: is_missing_def required_secret_def checks_stopOnError_def)
  done

lemma validation_DeleteAttachment:
  assumes "is_missing DeleteAttachmentById args f"
  shows "\<exists>m. DeleteAttachment w args = throw_Error m start \<and> names_missing DeleteAttachmentById args m"
  unfolding DeleteAttachment_def Let_def
  apply (rule guarded_validation)
   apply (simp, intro conjI impI;
          (erule named_arg named_secret named_stop;
           simp add: mention_facts required_secret_def checks_stopOnError_def))
  using assms apply (auto simp: is_missing_def required_secret_def checks_stopOnError_def)
  done

lemma validation_createJiraTicket:
  assumes "is_missing CreateJiraTicket args f"
  shows "\<exists>m. createJiraTicket w args = throw_Error m start \<and> names_missing CreateJiraTicket args m"
  unfolding createJiraTicket_def Let_def
  apply (rule guarded_validation)
   apply (simp, intro conjI impI;
          (erule named_arg named_secret named_stop;
           simp add: mention_facts required_secret_def checks_stopOnError_def))
  using assms apply (auto simp: is_missing_def required_secret_def checks_stopOnError_def)
  done

lemma mention_facts2:
  "mentions ''Secret not defined or invalid.'' ''secret''"
  "mentions ''No text defined.'' ''text''"
  "mentions ''No query defined.'' ''query''"
  "mentions ''No news term defined.'' ''term''"
  "mentions ''No image term defined.'' ''term''"
  "mentions ''No entity defined.'' ''entity''"
  by code_simp+

lemma falsy_member: "falsy v \<Longrightarrow> falsy (member v k)"
  by (cases v) (simp_all add: falsy_def)

lemma guarded_first:
  "b \<Longrightarrow> (case first_failure ((b, m) # cs) of Some message \<Rightarrow> A message | None \<Rightarrow> B) = A m"
  by (simp add: first_failure_Cons)

lemma guarded_second:
  "\<not> b \<Longrightarrow> b2 \<Longrightarrow>
   (case first_failure ((b, m) # (b2, m2) # cs) of Some message \<Rightarrow> A message | None \<Rightarrow> B) = A m2"
  by (simp add: first_failure_Cons)

lemma guarded_third:
  "\<not> b \<Longrightarrow> \<not> b2 \<Longrightarrow> b3 \<Longrightarrow>
   (case first_failure ((b, m) # (b2, m2) # (b3, m3) # cs) of
      Some message \<Rightarrow> A message | None \<Rightarrow> B) = A m3"
  by (simp add: first_failure_Cons)

lemma report_key_check:
  assumes "is_missing c args f" "required_args c = [''secret'', a]" "required_secret c = [''key'']"
    "\<not> checks_stopOnError c" "c \<noteq> YextGetEntity" "mentions m2 a" "a \<noteq> ''key''"
  shows "\<exists>m. (case first_failure
                   [(falsy (field args ''secret'') \<or> falsy (member (field args ''secret'') ''key''),
                     ''Secret not defined or invalid.''),
                    (falsy (field args a), m2)] of
                Some message \<Rightarrow> reject (JStr message) start
              | None \<Rightarrow> B)
             = reject (JStr m) start \<and> reports c args m"
proof (cases "falsy (member (field args ''secret'') ''key'')")
  case True
  then have key: "list_ex (is_missing c args) (required_secret c)"
    by (simp add: assms(3) is_missing_def)
  have "is_missing c args ''secret'' \<longrightarrow> names_missing c args ''Secret not defined or invalid.''"
    by (auto simp: is_missing_def assms(2-4) intro: named_arg mention_facts2)
  with key have "reports c args ''Secret not defined or invalid.''"
    by (simp add: reports_def assms(4))
  moreover have "(case first_failure
                   [(falsy (field args ''secret'') \<or> falsy (member (field args ''secret'') ''key''),
                     ''Secret not defined or invalid.''),
                    (falsy (field args a), m2)] of
                Some message \<Rightarrow> reject (JStr message) start
              | None \<Rightarrow> B) = reject (JStr ''Secret not defined or invalid.'') start"
    using True by (intro guarded_first) simp
  ultimately show ?thesis
    by blast
next
  case False
  then have secret: "\<not> falsy (field args ''secret'')"
    using falsy_member by blast
  with False assms(1) have a: "falsy (field args a)"
    by (auto simp: is_missing_def assms(2-4))
  have nokey: "\<not> list_ex (is_missing c args) (required_secret c)"
    using False secret assms(7) by (auto simp: assms(2-4) is_missing_def)
  have "names_missing c args m2"
    using a by (rule named_arg) (simp_all add: assms(2,6))
  with nokey have "reports c args m2"
    by (simp add: reports_def assms(4))
  moreover have "(case first_failure
                   [(falsy (field args ''secret'') \<or> falsy (member (field args ''secret'') ''key''),
                     ''Secret not defined or invalid.''),
                    (falsy (field args a), m2)] of
                Some message \<Rightarrow> reject (JStr message) start
              | None \<Rightarrow> B) = reject (JStr m2) start"
    using False secret a by (intro guarded_second) simp_all
  ultimately show ?thesis
    by blast
qed

lemma report_spellCheck:
  assumes "is_missing SpellCheck args f"
  shows "\<exists>m. spellCheck w args = reject (JStr m) start \<and> reports SpellCheck args m"
  unfolding spellCheck_def Let_def
  by (rule report_key_check [OF assms])
     (simp_all add: required_secret_def checks_stopOnError_def mention_facts2)

lemma report_bingWebSearch:
  assumes "is_missing BingWebSearch args f"
  shows "\<exists>m. bingWebSearch w args = reject (JStr m) start \<and> reports BingWebSearch args m"
  unfolding bingWebSearch_def Let_def
  by (rule report_key_check [OF assms])
     (simp_all add: required_secret_def checks_stopOnError_def mention_facts2)

lemma report_bingNewsSearch:
  assumes "is_missing BingNewsSearch args f"
  shows "\<exists>m. bingNewsSearch w args = reject (JStr m) start \<and> reports BingNewsSearch args m"
  unfolding bingNewsSearch_def Let_def
  by (rule report_key_check [OF assms])
     (simp_all add: required_secret_def checks_stopOnError_def mention_facts2)

lemma report_bingImageSearch:
  assumes "is_missing BingImageSearch args f"
  shows "\<exists>m. bingImageSearch w args = reject (JStr m) start \<and> reports BingImageSearch args m"
  unfolding bingImageSearch_def Let_def
  by (rule report_key_check [OF assms])
     (simp_all add: required_secret_def checks_stopOnError_def mention_facts2)

lemma report_textTranslator:
  assumes "is_missing TextTranslator args f"
  shows "\<exists>m. textTranslator w args = reject (JStr m) start \<and> reports TextTranslator args m"
  unfolding textTranslator_def Let_def
  by (rule report_key_check [OF assms])
     (simp_all add: required_secret_def checks_stopOnError_def mention_facts2)

lemma report_text_analytics:
  assumes "is_missing c args f" "required_args c = [''secret'', ''text'']"
    "required_secret c = [''key'']" "\<not> checks_stopOnError c" "c \<noteq> YextGetEntity"
  shows "\<exists>m. text_analytics path with_language w args = reject (JStr m) start \<and> reports c args m"
  unfolding text_analytics_def Let_def
  by (rule report_key_check [OF assms]) (simp_all add: mention_facts2)

lemma report_GetEntity:
  assumes "is_missing YextGetEntity args f"
  shows "\<exists>m. GetEntity w args = reject (JStr m) start \<and> reports YextGetEntity args m"
proof -
  let ?secret = "field args ''secret''"
  have nc: "\<not> checks_stopOnError YextGetEntity"
    by (simp add: checks_stopOnError_def)
  have rs: "required_secret YextGetEntity = [''api_key'']"
    by (simp add: required_secret_def)
  show ?thesis
  proof (cases "falsy (member ?secret ''api_key'')")
    case True
    have "is_missing YextGetEntity args ''secret''
          \<longrightarrow> names_missing YextGetEntity args ''Secret not defined or invalid.''"
      by (auto simp: is_missing_def rs nc intro: named_arg mention_facts2)
    with True have "reports YextGetEntity args ''Secret not defined or invalid.''"
      by (simp add: reports_def nc rs is_missing_def)
    moreover have "GetEntity w args = reject (JStr ''Secret not defined or invalid.'') start"
      unfolding GetEntity_def Let_def using True by (intro guarded_first) simp
    ultimately show ?thesis
      by blast
  next
    case False
    then have secret: "\<not> falsy ?secret"
      using falsy_member by blast
    have nokey: "\<not> list_ex (is_missing YextGetEntity args) (required_secret YextGetEntity)"
      using False by (simp add: rs nc is_missing_def)
    show ?thesis
    proof (cases "falsy (field args ''entity'')")
      case True
      then have "names_missing YextGetEntity args ''No entity defined.''"
        by (rule named_arg) (simp_all add: mention_facts2)
      with nokey have "reports YextGetEntity args ''No entity defined.''"
        by (simp add: reports_def nc)
      moreover have "GetEntity w args = reject (JStr ''No entity defined.'') start"
        unfolding GetEntity_def Let_def using False secret True by (intro guarded_second) simp_all
      ultimately show ?thesis
        by blast
    next
      case entity: False
      with False secret assms have v: "falsy (field args ''api_version'')"
        by (auto simp: is_missing_def rs nc)
      then have "is_missing YextGetEntity args ''api_version''"
        by (simp add: is_missing_def)
      with nokey have "reports YextGetEntity args ''No version defined.''"
        by (simp add: reports_def nc)
      moreover have "GetEntity w args = reject (JStr ''No version defined.'') start"
        unfolding GetEntity_def Let_def using False secret entity v by (intro guarded_third) simp_all
      ultimately show ?thesis
        by blast
    qed
  qed
qed

lemma validation_validateArgs:
  assumes "is_missing c args f" "required_args c = [''secret'', ''ticket'', ''contextStore'']"
    "required_secret c = [''username'', ''password'', ''domain'']" "checks_stopOnError c"
  shows "\<exists>m. validateArgs args = Inl m \<and> names_missing c args m"
  unfolding validateArgs_def Let_def
  apply (rule guarded_validation)
   apply (simp, intro conjI impI;
          (erule named_arg named_secret named_stop; simp add: mention_facts assms(2-4)))
  using assms apply (auto simp: is_missing_def)
  done

lemma validation_ticket_family:
  assumes "is_missing c args f" "required_args c = [''secret'', ''ticket'', ''contextStore'']"
    "required_secret c = [''username'', ''password'', ''domain'']" "checks_stopOnError c"
  shows "\<exists>m. field_connector fieldName w args = throw_Error m start \<and> names_missing c args m"
    and "\<exists>m. getTicketSummary w args = throw_Error m start \<and> names_missing c args m"
    and "\<exists>m. getAllTicketInfo w args = throw_Error m start \<and> names_missing c args m"
  using validation_validateArgs [OF assms]
  by (auto simp: field_connector_def getTicketSummary_def getAllTicketInfo_def)

lemma validation_extractTicket:
  assumes "is_missing ExtractTicket args f"
  shows "\<exists>m. extractTicket t args = throw_Error m start \<and> names_missing ExtractTicket args m"
proof (cases "falsy (field args ''contextStore'')")
  case True
  then have "names_missing ExtractTicket args ''Context store not defined.''"
    by (rule named_arg) (simp_all add: mention_facts)
  with True show ?thesis
    by (auto simp: extractTicket_def Let_def)
next
  case False
  with assms have u: "field args ''stopOnError'' = JUndefined"
    by (auto simp: is_missing_def required_secret_def)
  then have "names_missing ExtractTicket args ''Stop on error flag not defined.''"
    by (rule named_stop) (simp_all add: mention_facts checks_stopOnError_def)
  with False u show ?thesis
    by (auto simp: extractTicket_def Let_def)
qed

lemma rejected_start:
  "settled (reject v start) = Rejected v" "trace (reject v start) = []"
  "settled (throw_Error m start) = Rejected (new_Error m)" "trace (throw_Error m start) = []"
  by simp_all

lemma validation_run:
  assumes "is_missing c args f"
  shows "\<exists>m. run c w t args = reject (validation_error c m) start \<and> reports c args m"
proof (cases c)
  case CreateJiraTicket
  with validation_createJiraTicket [of args f w] assms show ?thesis
    by (auto simp: validation_error_def checks_stopOnError_def throw_Error_def reports_def)
next
  case ExtractTicket
  with validation_extractTicket [of args f t] assms show ?thesis
    by (auto simp: validation_error_def checks_stopOnError_def throw_Error_def reports_def)
next
  case GetFromTable
  with validation_GETFromTable [of args f w] assms show ?thesis
    by (auto simp: validation_error_def checks_stopOnError_def throw_Error_def reports_def)
next
  case PostToTable
  with validation_POSTToTable [of args f w] assms show ?thesis
    by (auto simp: validation_error_def checks_stopOnError_def throw_Error_def reports_def)
next
  case PatchRecord
  with validation_PatchRecordInTable [of args f w] assms show ?thesis
    by (auto simp: validation_error_def checks_stopOnError_def throw_Error_def reports_def)
next
  case DeleteRecord
  with validation_DeleteFromTable [of args f w] assms show ?thesis
    by (auto simp: validation_error_def checks_stopOnError_def throw_Error_def reports_def)
next
  case GetAttachments
  with validation_GETAttachments [of args f w] assms show ?thesis
    by (auto simp: validation_error_def checks_stopOnError_def throw_Error_def reports_def)
next
  case GetAttachmentById
  with validation_GETAttachmentById [of args f w] assms show ?thesis
    by (auto simp: validation_error_def checks_stopOnError_def throw_Error_def reports_def)
next
  case PostAttachment
  with validation_POSTAttachment [of args f w] assms show ?thesis
    by (auto simp: validation_error_def checks_stopOnError_def throw_Error_def reports_def)
next
  case DeleteAttachmentById
  with validation_DeleteAttachment [of args f w] assms show ?thesis
    by (auto simp: validation_error_def checks_stopOnError_def throw_Error_def reports_def)
next
  case GetTicketStatus
  then have c: "required_args c = [''secret'', ''ticket'', ''contextStore'']"
    "required_secret c = [''username'', ''password'', ''domain'']" "checks_stopOnError c"
    by (simp_all add: required_secret_def checks_stopOnError_def)
  from validation_ticket_family(1) [OF assms c, of _ w] GetTicketStatus c(3) show ?thesis
    by (auto simp: validation_error_def throw_Error_def reports_def getTicketStatus_def)
next
  case GetTicketAssignee
  then have c: "required_args c = [''secret'', ''ticket'', ''contextStore'']"
    "required_secret c = [''username'', ''password'', ''domain'']" "checks_stopOnError c"
    by (simp_all add: required_secret_def checks_stopOnError_def)
  from validation_ticket_family(1) [OF assms c, of _ w] GetTicketAssignee c(3) show ?thesis
    by (auto simp: validation_error_def throw_Error_def reports_def getTicketAssignee_def)
next
  case GetTicketPriority
  then have c: "required_args c = [''secret'', ''ticket'', ''contextStore'']"
    "required_secret c = [''username'', ''password'', ''domain'']" "checks_stopOnError c"
    by (simp_all add: required_secret_def checks_stopOnError_def)
  from validation_ticket_family(1) [OF assms c, of _ w] GetTicketPriority c(3) show ?thesis
    by (auto simp: validation_error_def throw_Error_def reports_def getTicketPriority_def)
next
  case GetTicketResolution
  then have c: "required_args c = [''secret'', ''ticket'', ''contextStore'']"
    "required_secret c = [''username'', ''password'', ''domain'']" "checks_stopOnError c"
    by (simp_all add: required_secret_def checks_stopOnError_def)
  from validation_ticket_family(1) [OF assms c, of _ w] GetTicketResolution c(3) show ?thesis
    by (auto simp: validation_error_def throw_Error_def reports_def getTicketResolution_def)
next
  case GetTicketReporter
  then have c: "required_args c = [''secret'', ''ticket'', ''contextStore'']"
    "required_secret c = [''username'', ''password'', ''domain'']" "checks_stopOnError c"
    by (simp_all add: required_secret_def checks_stopOnError_def)
  from validation_ticket_family(1) [OF assms c, of _ w] GetTicketReporter c(3) show ?thesis
    by (auto simp: validation_error_def throw_Error_def reports_def getTicketReporter_def)
next
  case GetTicketComments
  then have c: "required_args c = [''secret'', ''ticket'', ''contextStore'']"
    "required_secret c = [''username'', ''password'', ''domain'']" "checks_stopOnError c"
    by (simp_all add: required_secret_def checks_stopOnError_def)
  from validation_ticket_family(1) [OF assms c, of _ w] GetTicketComments c(3) show ?thesis
    by (auto simp: validation_error_def throw_Error_def reports_def getTicketComments_def)
next
  case GetTicketWatchers
  then have c: "required_args c = [''secret'', ''ticket'', ''contextStore'']"
    "required_secret c = [''username'', ''password'', ''domain'']" "checks_stopOnError c"
    by (simp_all add: required_secret_def checks_stopOnError_def)
  from validation_ticket_family(1) [OF assms c, of _ w] GetTicketWatchers c(3) show ?thesis
    by (auto simp: validation_error_def throw_Error_def reports_def getTicketWatchers_def)
next
  case GetTicketSummary
  then have c: "required_args c = [''secret'', ''ticket'', ''contextStore'']"
    "required_secret c = [''username'', ''password'', ''domain'']" "checks_stopOnError c"
    by (simp_all add: required_secret_def checks_stopOnError_def)
  from validation_ticket_family(2) [OF assms c, of w] GetTicketSummary c(3) show ?thesis
    by (auto simp: validation_error_def throw_Error_def reports_def)
next
  case GetAllTicketInfo
  then have c: "required_args c = [''secret'', ''ticket'', ''contextStore'']"
    "required_secret c = [''username'', ''password'', ''domain'']" "checks_stopOnError c"
    by (simp_all add: required_secret_def checks_stopOnError_def)
  from validation_ticket_family(3) [OF assms c, of w] GetAllTicketInfo c(3) show ?thesis
    by (auto simp: validation_error_def throw_Error_def reports_def)
next
  case YextGetEntity
  with report_GetEntity [of args f w] assms show ?thesis
    by (auto simp: validation_error_def checks_stopOnError_def)
next
  case SpellCheck
  with report_spellCheck [of args f w] assms show ?thesis
    by (auto simp: validation_error_def checks_stopOnError_def)
next
  case BingWebSearch
  with report_bingWebSearch [of args f w] assms show ?thesis
    by (auto simp: validation_error_def checks_stopOnError_def)
next
  case BingNewsSearch
  with report_bingNewsSearch [of args f w] assms show ?thesis
    by (auto simp: validation_error_def checks_stopOnError_def)
next
  case BingImageSearch
  with report_bingImageSearch [of args f w] assms show ?thesis
    by (auto simp: validation_error_def checks_stopOnError_def)
next
  case TextTranslator
  with report_textTranslator [of args f w] assms show ?thesis
    by (auto simp: validation_error_def checks_stopOnError_def)
next
  case RecognizeLanguage
  then have c: "required_args c = [''secret'', ''text'']" "required_secret c = [''key'']"
    "\<not> checks_stopOnError c" "c \<noteq> YextGetEntity"
    by (simp_all add: required_secret_def checks_stopOnError_def)
  from report_text_analytics [OF assms c, of _ _ w] RecognizeLanguage c(3) show ?thesis
    by (auto simp: validation_error_def recognizeLanguage_def)
next
  case ExtractKeyphrases
  then have c: "required_args c = [''secret'', ''text'']" "required_secret c = [''key'']"
    "\<not> checks_stopOnError c" "c \<noteq> YextGetEntity"
    by (simp_all add: required_secret_def checks_stopOnError_def)
  from report_text_analytics [OF assms c, of _ _ w] ExtractKeyphrases c(3) show ?thesis
    by (auto simp: validation_error_def extractKeyphrases_def)
next
  case NamedEntityRecognition
  then have c: "required_args c = [''secret'', ''text'']" "required_secret c = [''key'']"
    "\<not> checks_stopOnError c" "c \<noteq> YextGetEntity"
    by (simp_all add: required_secret_def checks_stopOnError_def)
  from report_text_analytics [OF assms c, of _ _ w] NamedEntityRecognition c(3) show ?thesis
    by (auto simp: validation_error_def namedEntityRecognition_def)
qed

text \<open>
  C4, as amended. For every connector, when a field its validation requires (an
  argument, a field of the secret, or for the Jira and ServiceNow connectors a defined
  \<^verbatim>\<open>stopOnError\<close>) is missing or falsy, the call is rejected with a validation
  message before any call or write is made, whatever \<^verbatim>\<open>stopOnError\<close> is. The
  message names a missing field, with two exceptions: the Yext, Azure and Bing connectors
  report a missing secret key with exactly \<^verbatim>\<open>"Secret not defined or invalid."\<close>, and
  the Yext connector reports a missing \<^verbatim>\<open>api_version\<close> with
  \<^verbatim>\<open>"No version defined."\<close>.
\<close>

theorem validation_precedes_network:
  assumes "is_missing c args f"
  shows "\<exists>m. settled (run c w t args) = Rejected (validation_error c m)
             \<and> trace (run c w t args) = []
             \<and> reports c args m"
proof -
  from validation_run [OF assms, of w t] obtain m
    where "run c w t args = reject (validation_error c m) start" and "reports c args m"
    by blast
  then show ?thesis
    by (intro exI [of _ m]) (simp add: rejected_start)
qed

theorem validation_precedes_network_witness:
  "(\<exists>m. settled (run GetFromTable online JUndefined (no_username_args True)) = Rejected (new_Error m)
        \<and> trace (run GetFromTable online JUndefined (no_username_args True)) = []
        \<and> names_missing GetFromTable (no_username_args True) m)
   \<and> (\<exists>m. settled (run GetFromTable online JUndefined (no_username_args False)) = Rejected (new_Error m)
        \<and> trace (run GetFromTable online JUndefined (no_username_args False)) = []
        \<and> names_missing GetFromTable (no_username_args False) m)
   \<and> settled (run SpellCheck online JUndefined no_key_args) = Rejected (JStr ''Secret not defined or invalid.'')
   \<and> trace (run SpellCheck online JUndefined no_key_args) = []"
proof -
  have missing: "is_missing GetFromTable (no_username_args stop) ''username''" for stop
    by (simp add: is_missing_def no_username_args_def required_secret_def field_def falsy_def)
  have c: "checks_stopOnError GetFromTable" "\<not> checks_stopOnError SpellCheck"
    by (simp_all add: checks_stopOnError_def)
  have key: "is_missing SpellCheck no_key_args ''key''"
    by (simp add: is_missing_def no_key_args_def required_secret_def field_def falsy_def)
  then have keys: "list_ex (is_missing SpellCheck no_key_args) (required_secret SpellCheck)"
    by (simp add: required_secret_def)
  from validation_precedes_network [OF key, of online JUndefined] c(2) keys
  have "settled (run SpellCheck online JUndefined no_key_args) = Rejected (JStr ''Secret not defined or invalid.'')
      \<and> trace (run SpellCheck online JUndefined no_key_args) = []"
    by (auto simp: reports_def validation_error_def)
  with validation_precedes_network [OF missing [of True], of online JUndefined]
       validation_precedes_network [OF missing [of False], of online JUndefined] c(1)
  show ?thesis
    by (simp add: validation_error_def reports_def)
qed

text \<open>
  The claim as stated, with a message naming the missing field for every connector,
  fails on \<open>spellCheck\<close> with a secret that has no \<^verbatim>\<open>key\<close>: the message does not
  name \<^verbatim>\<open>key\<close>; and on \<open>GetEntity\<close> without \<^verbatim>\<open>api_version\<close>, whose message
  speaks of a version only. And the arguments \<^verbatim>\<open>store\<close> and \<^verbatim>\<open>stopOnError\<close>,
  which the signature of \<open>spellCheck\<close> declares like the others, are not among the
  fields it checks: without them the request is made.
\<close>

theorem spellCheck_generic_message_counterexample:
  "is_missing SpellCheck no_key_args ''key''
   \<and> settled (run SpellCheck online JUndefined no_key_args) = Rejected (JStr ''Secret not defined or invalid.'')
   \<and> \<not> mentions ''Secret not defined or invalid.'' ''key''
   \<and> is_missing YextGetEntity yext_no_version_args ''api_version''
   \<and> settled (run YextGetEntity online JUndefined yext_no_version_args) = Rejected (JStr ''No version defined.'')
   \<and> \<not> mentions ''No version defined.'' ''api_version''
   \<and> field no_store_args ''store'' = JUndefined
   \<and> field no_store_args ''stopOnError'' = JUndefined
   \<and> length (http_calls (trace (run SpellCheck online JUndefined no_store_args))) = 1
   \<and> settled (run SpellCheck online JUndefined no_store_args) = Resolved"
proof -
  have "is_missing SpellCheck no_key_args ''key''"
    by (simp add: is_missing_def no_key_args_def required_secret_def field_def falsy_def)
  moreover have "settled (run SpellCheck online JUndefined no_key_args)
      = Rejected (JStr ''Secret not defined or invalid.'')"
    by (simp add: spellCheck_def no_key_args_def field_def falsy_def first_failure_Cons)
  moreover have "\<not> mentions ''Secret not defined or invalid.'' ''key''"
    by code_simp
  moreover have "is_missing YextGetEntity yext_no_version_args ''api_version''"
    by (simp add: is_missing_def yext_no_version_args_def field_def falsy_def)
  moreover have "settled (run YextGetEntity online JUndefined yext_no_version_args)
      = Rejected (JStr ''No version defined.'')"
    by (simp add: GetEntity_def yext_no_version_args_def field_def falsy_def first_failure_Cons)
  moreover have "\<not> mentions ''No version defined.'' ''api_version''"
    by code_simp
  moreover have "field no_store_args ''store'' = JUndefined" "field no_store_args ''stopOnError'' = JUndefined"
    by (simp_all add: no_store_args_def field_def)
  moreover have "length (http_calls (trace (run SpellCheck online JUndefined no_store_args))) = 1
      \<and> settled (run SpellCheck online JUndefined no_store_args) = Resolved"
    by (simp add: spellCheck_def no_store_args_def field_def falsy_def first_failure_Nil
        first_failure_Cons Let_def online_def mock_world_def response_handler_def store_result_def
        http_calls_def)
  ultimately show ?thesis
    by blast
qed

section \<open>An undefined stopOnError\<close>

lemma flag_GetEntity:
  "GetEntity w ((''stopOnError'', JUndefined) # args) = GetEntity w ((''stopOnError'', JBool False) # args)"
proof -
  have f: "field ((''stopOnError'', v) # args) ''secret'' = field args ''secret''"
    "field ((''stopOnError'', v) # args) ''entity'' = field args ''entity''"
    "field ((''stopOnError'', v) # args) ''api_version'' = field args ''api_version''"
    "field ((''stopOnError'', v) # args) ''store'' = field args ''store''" for v
    by (simp_all add: field_def)
  have t: "truthy (field ((''stopOnError'', JUndefined) # args) ''stopOnError'')
         = truthy (field ((''stopOnError'', JBool False) # args) ''stopOnError'')"
    by (simp add: field_def)
  show ?thesis
    unfolding GetEntity_def f t by (rule refl)
qed

lemma flag_fields:
  "field ((''stopOnError'', v) # args) ''secret'' = field args ''secret''"
  "field ((''stopOnError'', v) # args) ''text'' = field args ''text''"
  "field ((''stopOnError'', v) # args) ''language'' = field args ''language''"
  "field ((''stopOnError'', v) # args) ''writeToContext'' = field args ''writeToContext''"
  "field ((''stopOnError'', v) # args) ''store'' = field args ''store''"
  "field ((''stopOnError'', v) # args) ''query'' = field args ''query''"
  "field ((''stopOnError'', v) # args) ''term'' = field args ''term''"
  by (simp_all add: field_def)

lemma flag_truthy:
  "truthy (field ((''stopOnError'', JUndefined) # args) ''stopOnError'')
   = truthy (field ((''stopOnError'', JBool False) # args) ''stopOnError'')"
  by (simp add: field_def)

lemma flag_spellCheck:
  "spellCheck w ((''stopOnError'', JUndefined) # args) = spellCheck w ((''stopOnError'', JBool False) # args)"
  unfolding spellCheck_def response_handler_def store_result_def flag_fields flag_truthy by (rule refl)

lemma flag_text_analytics:
  "text_analytics path l w ((''stopOnError'', JUndefined) # args)
   = text_analytics path l w ((''stopOnError'', JBool False) # args)"
  unfolding text_analytics_def text_documents_def response_handler_def store_result_def flag_fields
    flag_truthy
  by (rule refl)

lemma flag_bingWebSearch:
  "bingWebSearch w ((''stopOnError'', JUndefined) # args) = bingWebSearch w ((''stopOnError'', JBool False) # args)"
  unfolding bingWebSearch_def flag_fields flag_truthy by (rule refl)

lemma flag_bingNewsSearch:
  "bingNewsSearch w ((''stopOnError'', JUndefined) # args) = bingNewsSearch w ((''stopOnError'', JBool False) # args)"
  unfolding bingNewsSearch_def flag_fields by (rule refl)

lemma flag_bingImageSearch:
  "bingImageSearch w ((''stopOnError'', JUndefined) # args) = bingImageSearch w ((''stopOnError'', JBool False) # args)"
  unfolding bingImageSearch_def flag_fields by (rule refl)

lemma flag_textTranslator:
  "textTranslator w ((''stopOnError'', JUndefined) # args) = textTranslator w ((''stopOnError'', JBool False) # args)"
  unfolding textTranslator_def store_result_def flag_fields by (rule refl)

lemma flag_run:
  assumes "\<not> checks_stopOnError c"
  shows "run c w t ((''stopOnError'', JUndefined) # args) = run c w t ((''stopOnError'', JBool False) # args)"
  using assms
  by (cases c)
     (simp_all add: checks_stopOnError_def flag_GetEntity flag_spellCheck flag_text_analytics
        flag_bingWebSearch flag_bingNewsSearch flag_bingImageSearch flag_textTranslator
        recognizeLanguage_def extractKeyphrases_def namedEntityRecognition_def)

lemma key_check_passes:
  assumes "nothing_missing c args" "required_args c = [''secret'', a]" "required_secret c = [''key'']"
  shows "first_failure
           [(falsy (field args ''secret'') \<or> falsy (member (field args ''secret'') ''key''), m1),
            (falsy (field args a), m2)] = None"
  using assms
  by (simp add: nothing_missing_def is_missing_def first_failure_Cons first_failure_Nil)

lemma one_call_response_handler:
  "length (http_calls (trace (response_handler w args r (emit (HttpCall f call) start)))) = 1"
  by (simp add: response_handler_def store_result_def http_calls_def
      split: https_result.splits stream.splits option.splits)

lemma one_call_bing_tail:
  "length (http_calls (trace (case r of
       Throws message \<Rightarrow> reject (new_Error message) (emit (HttpCall f call) start)
     | NoResponse \<Rightarrow> emit (HttpCall f call) start
     | Response res (Ends body) \<Rightarrow>
         (case json_parse w body of
            Some result \<Rightarrow> resolve (emit (SetInput store result) (emit (HttpCall f call) start))
          | None \<Rightarrow> emit (HttpCall f call) start)
     | Response res (Fails message) \<Rightarrow>
         (if truthy stopOnError then reject (JStr message) (emit (HttpCall f call) start)
          else resolve (emit (SetInput store (error_object (JStr message))) (emit (HttpCall f call) start)))))) = 1"
  by (simp add: http_calls_def split: https_result.splits stream.splits option.splits)

lemma one_call_bing_tail_no_error:
  "length (http_calls (trace (case r of
       Throws message \<Rightarrow> reject (new_Error message) (emit (HttpCall f call) start)
     | NoResponse \<Rightarrow> emit (HttpCall f call) start
     | Response res (Ends body) \<Rightarrow>
         (case json_parse w body of
            Some result \<Rightarrow> resolve (emit (SetInput store result) (emit (HttpCall f call) start))
          | None \<Rightarrow> emit (HttpCall f call) start)
     | Response res (Fails message) \<Rightarrow> emit (HttpCall f call) start))) = 1"
  by (simp add: http_calls_def split: https_result.splits stream.splits option.splits)

lemma one_call_translator_tail:
  "length (http_calls (trace (case r of (err, res, body) \<Rightarrow>
       resolve (store_result args body (emit (HttpCall f call) start))))) = 1"
  by (simp add: http_calls_def store_result_def split: prod.splits)

lemma one_call_yext_tail:
  "length (http_calls (trace (case r of
       AxiosResponse response \<Rightarrow> resolve (emit (SetContext store (field response ''data''))
                                    (emit (HttpCall f call) (emit (Output out) start)))
     | AxiosError message \<Rightarrow>
         (if truthy stopOnError then reject (JStr message) (emit (HttpCall f call) (emit (Output out) start))
          else resolve (emit (HttpCall f call) (emit (Output out) start)))))) = 1"
  by (simp add: http_calls_def split: axios_result.splits)

lemma one_call_spellCheck:
  assumes "nothing_missing SpellCheck args"
  shows "length (http_calls (trace (spellCheck w args))) = 1"
  unfolding spellCheck_def Let_def
    key_check_passes [OF assms, of "''text''", simplified required_secret_def, simplified] option.case
  by (rule one_call_response_handler)

lemma one_call_bingWebSearch:
  assumes "nothing_missing BingWebSearch args"
  shows "length (http_calls (trace (bingWebSearch w args))) = 1"
  unfolding bingWebSearch_def Let_def
    key_check_passes [OF assms, of "''query''", simplified required_secret_def, simplified] option.case
  by (rule one_call_bing_tail)

lemma one_call_bingNewsSearch:
  assumes "nothing_missing BingNewsSearch args"
  shows "length (http_calls (trace (bingNewsSearch w args))) = 1"
  unfolding bingNewsSearch_def Let_def
    key_check_passes [OF assms, of "''term''", simplified required_secret_def, simplified] option.case
  by (rule one_call_bing_tail_no_error)

lemma one_call_bingImageSearch:
  assumes "nothing_missing BingImageSearch args"
  shows "length (http_calls (trace (bingImageSearch w args))) = 1"
  unfolding bingImageSearch_def Let_def
    key_check_passes [OF assms, of "''term''", simplified required_secret_def, simplified] option.case
  by (rule one_call_bing_tail_no_error)

lemma one_call_textTranslator:
  assumes "nothing_missing TextTranslator args"
  shows "length (http_calls (trace (textTranslator w args))) = 1"
  unfolding textTranslator_def Let_def
    key_check_passes [OF assms, of "''text''", simplified required_secret_def, simplified] option.case
  by (rule one_call_translator_tail)

lemma one_call_text_analytics:
  assumes "nothing_missing c args" "required_args c = [''secret'', ''text'']"
    "required_secret c = [''key'']"
  shows "length (http_calls (trace (text_analytics path l w args))) = 1"
  unfolding text_analytics_def Let_def key_check_passes [OF assms] option.case
  by (rule one_call_response_handler)

lemma one_call_GetEntity:
  assumes "nothing_missing YextGetEntity args" "is_string (field args ''entity'')"
  shows "length (http_calls (trace (GetEntity w args))) = 1"
proof -
  from assms(2) obtain entity where e: "field args ''entity'' = JStr entity"
    by (cases "field args ''entity''") simp_all
  have n: "first_failure
             [(falsy (field args ''secret'') \<or> falsy (member (field args ''secret'') ''api_key''), m1),
              (falsy (JStr entity), m2), (falsy (field args ''api_version''), m3)] = None" for m1 m2 m3
    using assms(1) e
    by (simp add: nothing_missing_def is_missing_def required_secret_def first_failure_Cons
        first_failure_Nil)
  show ?thesis
    unfolding GetEntity_def Let_def e n option.case jsval.case
    by (rule one_call_yext_tail)
qed

lemma one_call_run:
  assumes "\<not> checks_stopOnError c" "nothing_missing c args"
    "c = YextGetEntity \<longrightarrow> is_string (field args ''entity'')"
  shows "length (http_calls (trace (run c w t args))) = 1"
proof (cases c)
  case YextGetEntity
  with assms show ?thesis by (simp add: one_call_GetEntity)
next
  case SpellCheck
  with assms show ?thesis by (simp add: one_call_spellCheck)
next
  case RecognizeLanguage
  with assms(2) show ?thesis
    by (simp add: recognizeLanguage_def one_call_text_analytics required_secret_def)
next
  case ExtractKeyphrases
  with assms(2) show ?thesis
    by (simp add: extractKeyphrases_def one_call_text_analytics required_secret_def)
next
  case NamedEntityRecognition
  with assms(2) show ?thesis
    by (simp add: namedEntityRecognition_def one_call_text_analytics required_secret_def)
next
  case BingWebSearch
  with assms show ?thesis by (simp add: one_call_bingWebSearch)
next
  case BingNewsSearch
  with assms show ?thesis by (simp add: one_call_bingNewsSearch)
next
  case BingImageSearch
  with assms show ?thesis by (simp add: one_call_bingImageSearch)
next
  case TextTranslator
  with assms show ?thesis by (simp add: one_call_textTranslator)
qed (use assms(1) in \<open>simp_all add: checks_stopOnError_def\<close>)

text \<open>
  C5, as amended. For the Jira and ServiceNow connectors, an invocation in which
  \<^verbatim>\<open>stopOnError\<close> is \<^verbatim>\<open>undefined\<close> is rejected with a validation error that
  names a missing field, before any call or write is made. The Yext, Azure and Bing
  connectors do not check \<^verbatim>\<open>stopOnError\<close>: with \<^verbatim>\<open>undefined\<close> an invocation does
  exactly what it does with \<^verbatim>\<open>false\<close>, and when no field they require is missing
  (and, for \<open>GetEntity\<close>, the entity is a string) it makes its one request.
\<close>

theorem undefined_stopOnError_rejected:
  "(checks_stopOnError c \<and> field args ''stopOnError'' = JUndefined \<longrightarrow>
      (\<exists>m. settled (run c w t args) = Rejected (new_Error m)
           \<and> trace (run c w t args) = []
           \<and> names_missing c args m))
   \<and> (\<not> checks_stopOnError c \<longrightarrow>
        run c w t ((''stopOnError'', JUndefined) # args) = run c w t ((''stopOnError'', JBool False) # args))
   \<and> (\<not> checks_stopOnError c \<and> nothing_missing c args
        \<and> (c = YextGetEntity \<longrightarrow> is_string (field args ''entity''))
      \<longrightarrow> length (http_calls (trace (run c w t args))) = 1)"
proof (intro conjI impI)
  assume a: "checks_stopOnError c \<and> field args ''stopOnError'' = JUndefined"
  then have "is_missing c args ''stopOnError''"
    by (simp add: is_missing_def)
  from validation_run [OF this, of w t] a obtain m
    where "run c w t args = reject (new_Error m) start" and "names_missing c args m"
    by (auto simp: validation_error_def reports_def)
  then show "\<exists>m. settled (run c w t args) = Rejected (new_Error m)
           \<and> trace (run c w t args) = [] \<and> names_missing c args m"
    by (intro exI [of _ m]) (simp add: rejected_start)
next
  assume "\<not> checks_stopOnError c"
  then show "run c w t ((''stopOnError'', JUndefined) # args)
      = run c w t ((''stopOnError'', JBool False) # args)"
    by (rule flag_run)
next
  assume "\<not> checks_stopOnError c \<and> nothing_missing c args
        \<and> (c = YextGetEntity \<longrightarrow> is_string (field args ''entity''))"
  then show "length (http_calls (trace (run c w t args))) = 1"
    by (intro one_call_run) simp_all
qed

theorem undefined_stopOnError_rejected_witness:
  "(\<exists>m. settled (run GetFromTable online JUndefined no_flag_args) = Rejected (new_Error m)
       \<and> trace (run GetFromTable online JUndefined no_flag_args) = []
       \<and> names_missing GetFromTable no_flag_args m)
   \<and> run BingWebSearch online JUndefined ((''stopOnError'', JUndefined) # search_args)
       = run BingWebSearch online JUndefined ((''stopOnError'', JBool False) # search_args)
   \<and> field search_args ''stopOnError'' = JUndefined
   \<and> length (http_calls (trace (run BingWebSearch online JUndefined search_args))) = 1"
proof -
  have 1: "checks_stopOnError GetFromTable \<and> field no_flag_args ''stopOnError'' = JUndefined"
    by (simp add: checks_stopOnError_def no_flag_args_def field_def)
  have 2: "\<not> checks_stopOnError BingWebSearch"
    by (simp add: checks_stopOnError_def)
  have 3: "nothing_missing BingWebSearch search_args"
    by (simp add: nothing_missing_def is_missing_def required_secret_def checks_stopOnError_def
        search_args_def field_def falsy_def)
  have 4: "field search_args ''stopOnError'' = JUndefined"
    by (simp add: search_args_def field_def)
  from undefined_stopOnError_rejected [of GetFromTable no_flag_args online JUndefined]
       undefined_stopOnError_rejected [of BingWebSearch search_args online JUndefined] 1 2 3 4
  show ?thesis
    by simp
qed

text \<open>
  The claim as stated, for every connector, fails on \<open>GetEntity\<close>: with
  \<^verbatim>\<open>stopOnError\<close> undefined and the other arguments in place it makes its request
  and resolves.
\<close>

theorem GetEntity_undefined_stopOnError_counterexample:
  "field yext_no_flag_args ''stopOnError'' = JUndefined
   \<and> settled (run YextGetEntity online JUndefined yext_no_flag_args) = Resolved
   \<and> length (http_calls (trace (run YextGetEntity online JUndefined yext_no_flag_args))) = 1"
  by (simp add: GetEntity_def online_def mock_world_def yext_no_flag_args_def field_def falsy_def
      Let_def http_calls_def first_failure_Nil first_failure_Cons)

end
